theory Spec2Isabelle
  imports Complex_Main
begin

section \<open>Values\<close>

text \<open>
  A number that a comparison reads may be missing (NaN). It is modelled as
  \<open>real option\<close>, \<open>None\<close> being the missing value; every ordering comparison with
  the missing value is false. Infinite values are outside the model.
\<close>

type_synonym num = "real option"

definition nan_gt :: "num \<Rightarrow> real \<Rightarrow> bool" where
  "nan_gt x k = (case x of None \<Rightarrow> False | Some v \<Rightarrow> v > k)"

definition nan_le :: "num \<Rightarrow> real \<Rightarrow> bool" where
  "nan_le x k = (case x of None \<Rightarrow> False | Some v \<Rightarrow> v \<le> k)"

text \<open>
  A value of a decoded JSON array, before any coercion: \<open>json.load\<close> gives an integer
  literal as an \<open>int\<close> and any other number as a \<open>float\<close>.
\<close>

datatype jval = JNull | JInt int | JFloat real | JBool bool | JStr string | JOther

datatype datetime =
  Datetime (dt_year: int) (dt_month: nat) (dt_day: nat)
           (dt_hour: nat) (dt_minute: nat) (dt_second: nat)

datatype py_error =
    KeyError string
  | FileNotFoundError string
  | OSError string
  | RuntimeError string
  | ValueError string
  | OverflowError string

subsection \<open>The arithmetic of the numeric library\<close>

text \<open>
  The cells of a numeric column are stored as \<open>float64\<close> or \<open>int64\<close>, as pandas
  chooses for the column, and numpy computes on them: it rounds on \<open>float64\<close> and
  wraps around on \<open>int64\<close>. The stored numbers are the type \<open>'v\<close>, and what the
  library does with them is a parameter of the model:
  \<^item> \<open>of_int col i\<close> and \<open>of_float col x\<close>: the number stored for a cell of the column
    \<open>col\<close> that holds the integer \<open>i\<close> or the float \<open>x\<close>;
  \<^item> \<open>of_str col s\<close>: the same for a string, missing when it is not a number;
  \<^item> \<open>times v k\<close>: the product of a stored number and an integer constant;
  \<^item> \<open>plus u v\<close>: the sum of two stored numbers, which may be missing;
  \<^item> \<open>exact v\<close>: the value of a stored number, which the comparisons read.
  A missing cell is \<open>None\<close>; the library's arithmetic on a missing operand gives a
  missing result.
\<close>

record 'v numlib =
  of_int :: "jval list \<Rightarrow> int \<Rightarrow> 'v"
  of_float :: "jval list \<Rightarrow> real \<Rightarrow> 'v"
  of_str :: "jval list \<Rightarrow> string \<Rightarrow> 'v option"
  times :: "'v \<Rightarrow> int \<Rightarrow> 'v"
  plus :: "'v \<Rightarrow> 'v \<Rightarrow> 'v option"
  exact :: "'v \<Rightarrow> real"

definition nan_mul :: "'v numlib \<Rightarrow> 'v option \<Rightarrow> int \<Rightarrow> 'v option" where
  "nan_mul lib x k = (case x of None \<Rightarrow> None | Some v \<Rightarrow> Some (times lib v k))"

definition nan_add :: "'v numlib \<Rightarrow> 'v option \<Rightarrow> 'v option \<Rightarrow> 'v option" where
  "nan_add lib x y =
     (case x of None \<Rightarrow> None
      | Some a \<Rightarrow> (case y of None \<Rightarrow> None | Some b \<Rightarrow> plus lib a b))"

section \<open>Transform: transform.py\<close>

subsection \<open>Feature functions\<close>

definition aqi_category :: "num \<Rightarrow> string" where
  "aqi_category pm25 =
     (if pm25 = None then ''Unknown''
      else if nan_le pm25 50 then ''Good''
      else if nan_le pm25 100 then ''Moderate''
      else if nan_le pm25 200 then ''Unhealthy''
      else if nan_le pm25 300 then ''Very Unhealthy''
      else ''Hazardous'')"

definition classify_risk :: "num \<Rightarrow> string" where
  "classify_risk severity =
     (if nan_gt severity 400 then ''High Risk''
      else if nan_gt severity 200 then ''Moderate Risk''
      else ''Low Risk'')"

subsection \<open>Rows\<close>

text \<open>
  One row of the data frame. The row is polymorphic in the type of the time cell and of
  the numeric cells: they hold raw JSON values when the frame is built and typed values
  after \<open>to_datetime\<close> and \<open>to_numeric\<close>.
\<close>

record ('t, 'n) row =
  city :: string
  time :: 't
  pm10 :: 'n
  pm2_5 :: 'n
  carbon_monoxide :: 'n
  nitrogen_dioxide :: 'n
  sulphur_dioxide :: 'n
  ozone :: 'n
  uv_index :: 'n

type_synonym raw_row = "(jval, jval) row"
type_synonym 'v typed_row = "(datetime option, 'v option) row"

record 'v staged_row = "(datetime option, 'v option) row" +
  AQI_Category :: string
  severity :: "'v option"
  Risk_Level :: string
  hour :: "nat option"

text \<open>
  A raw file of \<open>data/raw\<close>: its name and its decoded content, of which only the
  \<open>hourly\<close> object is read (\<open>None\<close> when the key is absent). The object maps a
  field name to an array.
\<close>

record raw_file =
  file_name :: string
  hourly :: "(string \<rightharpoonup> jval list) option"

subsection \<open>The city of a file\<close>

text \<open>\<open>str.split\<close> with a one-character separator.\<close>

fun split_sep :: "char \<Rightarrow> string \<Rightarrow> string list" where
  "split_sep c [] = [[]]"
| "split_sep c (x # xs) =
     (if x = c then [] # split_sep c xs
      else (case split_sep c xs of
              [] \<Rightarrow> [[x]]
            | w # ws \<Rightarrow> (x # w) # ws))"

text \<open>
  \<open>file.name.split("_")[0]\<close>. The result of a split is never empty, so the index
  \<open>0\<close> never raises; the first case below is unreachable.
\<close>

definition city_of_file :: "string \<Rightarrow> string" where
  "city_of_file nm = (case split_sep (CHR ''_'') nm of [] \<Rightarrow> [] | w # ws \<Rightarrow> w)"

subsection \<open>Building the frame\<close>

definition get_list :: "(string \<rightharpoonup> jval list) \<Rightarrow> string \<Rightarrow> jval list" where
  "get_list h k = (case h k of None \<Rightarrow> [] | Some xs \<Rightarrow> xs)"

text \<open>
  The rows of one file: the eight arrays zipped, which stops at the shortest. A file
  without \<open>hourly\<close> is skipped.
\<close>

definition rows_of_file :: "raw_file \<Rightarrow> raw_row list" where
  "rows_of_file f =
     (case hourly f of
        None \<Rightarrow> []
      | Some h \<Rightarrow>
          map (\<lambda>(t, p10, p25, co_v, no2_v, so2_v, oz_v, uv_v).
                 \<lparr>city = city_of_file (file_name f), time = t, pm10 = p10, pm2_5 = p25,
                  carbon_monoxide = co_v, nitrogen_dioxide = no2_v,
                  sulphur_dioxide = so2_v, ozone = oz_v, uv_index = uv_v\<rparr>)
            (zip (get_list h ''time'')
            (zip (get_list h ''pm10'')
            (zip (get_list h ''pm2_5'')
            (zip (get_list h ''carbon_monoxide'')
            (zip (get_list h ''nitrogen_dioxide'')
            (zip (get_list h ''sulphur_dioxide'')
            (zip (get_list h ''ozone'')
                 (get_list h ''uv_index'')))))))))"

subsection \<open>Coercion\<close>

text \<open>
  \<open>pd.to_numeric(..., errors="coerce")\<close> on one cell of the column \<open>col\<close>. A number
  stays a number, stored as the column has it; anything that is not a number becomes
  the missing value.
\<close>

definition to_numeric :: "'v numlib \<Rightarrow> jval list \<Rightarrow> jval \<Rightarrow> 'v option" where
  "to_numeric lib col v =
     (case v of
        JNull \<Rightarrow> None
      | JInt i \<Rightarrow> Some (of_int lib col i)
      | JFloat x \<Rightarrow> Some (of_float lib col x)
      | JBool b \<Rightarrow> Some (of_int lib col (if b then 1 else 0))
      | JStr s \<Rightarrow> of_str lib col s
      | JOther \<Rightarrow> None)"

text \<open>
  The conversions of lines 97 to 107 on one row of the frame \<open>all_rows\<close>;
  \<open>to_datetime\<close> is \<open>pd.to_datetime(..., errors="coerce")\<close> on one cell.
\<close>

definition coerce_row ::
  "'v numlib \<Rightarrow> (jval \<Rightarrow> datetime option) \<Rightarrow> raw_row list \<Rightarrow> raw_row \<Rightarrow> 'v typed_row" where
  "coerce_row lib to_datetime all_rows r =
     \<lparr>city = city r, time = to_datetime (time r),
      pm10 = to_numeric lib (map pm10 all_rows) (pm10 r),
      pm2_5 = to_numeric lib (map pm2_5 all_rows) (pm2_5 r),
      carbon_monoxide = to_numeric lib (map carbon_monoxide all_rows) (carbon_monoxide r),
      nitrogen_dioxide = to_numeric lib (map nitrogen_dioxide all_rows) (nitrogen_dioxide r),
      sulphur_dioxide = to_numeric lib (map sulphur_dioxide all_rows) (sulphur_dioxide r),
      ozone = to_numeric lib (map ozone all_rows) (ozone r),
      uv_index = to_numeric lib (map uv_index all_rows) (uv_index r)\<rparr>"

subsection \<open>Dropping empty rows\<close>

definition num_cols :: "('v typed_row \<Rightarrow> 'v option) list" where
  "num_cols = [pm10, pm2_5, carbon_monoxide, nitrogen_dioxide, sulphur_dioxide, ozone, uv_index]"

text \<open>\<open>df.dropna(subset=cols, how="all")\<close>: a row goes when every cell of \<open>cols\<close> is missing.\<close>

definition dropna_all :: "('r \<Rightarrow> 'a option) list \<Rightarrow> 'r list \<Rightarrow> 'r list" where
  "dropna_all cols rows = filter (\<lambda>r. \<not> list_all (\<lambda>c. c r = None) cols) rows"

subsection \<open>Feature engineering\<close>

text \<open>The expression of lines 115 to 122, in the library's arithmetic.\<close>

definition severity_expr :: "'v numlib \<Rightarrow> 'v typed_row \<Rightarrow> 'v option" where
  "severity_expr lib r =
     nan_add lib (nan_add lib (nan_add lib (nan_add lib (nan_add lib
       (nan_mul lib (pm2_5 r) 5)
       (nan_mul lib (pm10 r) 3))
       (nan_mul lib (nitrogen_dioxide r) 4))
       (nan_mul lib (sulphur_dioxide r) 4))
       (nan_mul lib (carbon_monoxide r) 2))
       (nan_mul lib (ozone r) 3)"

definition enrich :: "'v numlib \<Rightarrow> 'v typed_row \<Rightarrow> 'v staged_row" where
  "enrich lib r =
     \<lparr>city = city r, time = time r, pm10 = pm10 r, pm2_5 = pm2_5 r,
      carbon_monoxide = carbon_monoxide r, nitrogen_dioxide = nitrogen_dioxide r,
      sulphur_dioxide = sulphur_dioxide r, ozone = ozone r, uv_index = uv_index r,
      AQI_Category = aqi_category (map_option (exact lib) (pm2_5 r)),
      severity = severity_expr lib r,
      Risk_Level = classify_risk (map_option (exact lib) (severity_expr lib r)),
      hour = map_option dt_hour (time r)\<rparr>"

subsection \<open>transform_data\<close>

text \<open>
  The result is the staged file that was written: \<open>Inr None\<close> when the function returns
  without writing (no raw file), \<open>Inr (Some rows)\<close> for the rows written, in order. When
  no file yields a row the frame has no column and \<open>df["time"]\<close> raises.
\<close>

definition transform_data ::
  "'v numlib \<Rightarrow> (jval \<Rightarrow> datetime option) \<Rightarrow> raw_file list
     \<Rightarrow> py_error + 'v staged_row list option" where
  "transform_data lib to_datetime raw_files =
     (if raw_files = [] then Inr None
      else
        let all_rows = concat (map rows_of_file raw_files) in
        if all_rows = [] then Inl (KeyError ''time'')
        else
          let df = map (coerce_row lib to_datetime all_rows) all_rows;
              df = dropna_all num_cols df
          in Inr (Some (map (enrich lib) df)))"

text \<open>The rows of a result, none when nothing was staged.\<close>

definition staged_rows :: "py_error + 'a list option \<Rightarrow> 'a list" where
  "staged_rows res = (case res of Inr (Some rows) \<Rightarrow> rows | _ \<Rightarrow> [])"

text \<open>The name that extract.py gives the raw file of a city (lines 85 and 86).\<close>

definition raw_file_name :: "string \<Rightarrow> string \<Rightarrow> string" where
  "raw_file_name cty timestamp = cty @ ''_raw_'' @ timestamp @ ''.json''"

subsection \<open>The statements of the specification\<close>

text \<open>The sum of a list of stored numbers from the left, missing once a sum is.\<close>

fun sum_from :: "'v numlib \<Rightarrow> 'v option \<Rightarrow> 'v list \<Rightarrow> 'v option" where
  "sum_from lib acc [] = acc"
| "sum_from lib acc (x # xs) =
     sum_from lib (case acc of None \<Rightarrow> None | Some a \<Rightarrow> plus lib a x) xs"

text \<open>
  The severity score as the specification words it: missing when one of the six inputs
  is, and otherwise the sum of the six weighted inputs.
\<close>

definition severity_score_spec ::
  "'v numlib \<Rightarrow> 'v option \<Rightarrow> 'v option \<Rightarrow> 'v option \<Rightarrow> 'v option \<Rightarrow> 'v option \<Rightarrow> 'v option
     \<Rightarrow> 'v option" where
  "severity_score_spec lib p25 p10 no2 so2 co o3 =
     (if p25 = None \<or> p10 = None \<or> no2 = None \<or> so2 = None \<or> co = None \<or> o3 = None
      then None
      else sum_from lib (Some (times lib (the p25) 5))
             [times lib (the p10) 3, times lib (the no2) 4, times lib (the so2) 4,
              times lib (the co) 2, times lib (the o3) 3])"

definition six_pollutants :: "('v typed_row \<Rightarrow> 'v option) list" where
  "six_pollutants = [pm2_5, pm10, carbon_monoxide, nitrogen_dioxide, sulphur_dioxide, ozone]"

text \<open>The rows that one file contributes to the staged file, in the frame \<open>all_rows\<close>.\<close>

definition staged_of_file ::
  "'v numlib \<Rightarrow> (jval \<Rightarrow> datetime option) \<Rightarrow> raw_row list \<Rightarrow> raw_file \<Rightarrow> 'v staged_row list" where
  "staged_of_file lib to_datetime all_rows f =
     map (enrich lib)
       (dropna_all num_cols (map (coerce_row lib to_datetime all_rows) (rows_of_file f)))"

section \<open>Extract: extract.py\<close>

text \<open>
  What \<open>requests.get\<close> does on one call: it raises, or it returns a response with a
  status code, on which \<open>response.json()\<close> raises, yields JSON \<open>null\<close> or yields a
  document.
\<close>

datatype 'j json_result = JsonRaises | JsonNull | Json 'j

datatype 'j http_result = RequestRaises | Response int "'j json_result"

text \<open>
  The outside of the extraction: the server's answer to the n-th request of the run, the
  formatted current time at the n-th reading of the clock, and whether a path can be
  opened for writing.
\<close>

record 'j world =
  http_get :: "nat \<Rightarrow> string \<Rightarrow> 'j http_result"
  strftime_now :: "nat \<Rightarrow> string"
  can_write :: "string \<Rightarrow> bool"

text \<open>A Python float: \<open>float(...)\<close> of a string may be NaN or infinite.\<close>

datatype pyfloat = NaN | PosInf | NegInf | Finite real

text \<open>The module's configuration, read from the environment.\<close>

record config =
  API_BASE :: string
  HOURLY_FIELDS :: string
  CITIES :: "string list"
  MAX_RETRIES :: int
  SLEEP_BETWEEN :: pyfloat
  RAW_DIR :: string

datatype xevent =
    Fetching string int int
  | ApiError int string
  | RequestFailed string
  | Slept real
  | FetchFailed string int
  | SavedRaw string

record 'j xstate =
  requests :: nat
  clock_reads :: nat
  xlog :: "xevent list"
  written :: "(string \<times> 'j) list"

text \<open>
  The table of coordinates; each number is held as the text that the URL's f-string
  gives it.
\<close>

definition CITY_COORDS :: "string \<rightharpoonup> string \<times> string" where
  "CITY_COORDS = map_of
     [(''Delhi'', (''28.7041'', ''77.1025'')),
      (''Mumbai'', (''19.076'', ''72.8777'')),
      (''Bengaluru'', (''12.9716'', ''77.5946'')),
      (''Hyderabad'', (''17.385'', ''78.4867'')),
      (''Kolkata'', (''22.5726'', ''88.3639''))]"

text \<open>
  The body of the loop of \<open>fetch_with_retry\<close> over the attempt numbers still to run.
  The outer \<open>option\<close> of the result tells whether the loop returned from the function
  (\<open>Some\<close>) or ran to its end (\<open>None\<close>).
\<close>

fun fetch_attempts ::
  "(nat \<Rightarrow> string \<Rightarrow> 'j http_result) \<Rightarrow> int \<Rightarrow> string \<Rightarrow> string \<Rightarrow> int list \<Rightarrow> 'j xstate
     \<Rightarrow> 'j option option \<times> 'j xstate" where
  "fetch_attempts get mr url cty [] st = (None, st)"
| "fetch_attempts get mr url cty (attempt # rest) st =
     (let st1 = st\<lparr>requests := Suc (requests st),
                   xlog := xlog st @ [Fetching cty attempt mr]\<rparr>
      in case get (requests st) url of
           RequestRaises \<Rightarrow>
             fetch_attempts get mr url cty rest
               (st1\<lparr>xlog := xlog st1 @ [RequestFailed cty, Slept 1]\<rparr>)
         | Response status_code body \<Rightarrow>
             if status_code = 200 then
               (case body of
                  Json j \<Rightarrow> (Some (Some j), st1)
                | JsonNull \<Rightarrow> (Some None, st1)
                | JsonRaises \<Rightarrow>
                    fetch_attempts get mr url cty rest
                      (st1\<lparr>xlog := xlog st1 @ [RequestFailed cty, Slept 1]\<rparr>))
             else
               fetch_attempts get mr url cty rest
                 (st1\<lparr>xlog := xlog st1 @ [ApiError status_code cty, Slept 1]\<rparr>))"

definition fetch_with_retry ::
  "(nat \<Rightarrow> string \<Rightarrow> 'j http_result) \<Rightarrow> int \<Rightarrow> string \<Rightarrow> string \<Rightarrow> 'j xstate
     \<Rightarrow> 'j option \<times> 'j xstate" where
  "fetch_with_retry get mr url cty st =
     (case fetch_attempts get mr url cty [1..mr] st of
        (Some r, st') \<Rightarrow> (r, st')
      | (None, st') \<Rightarrow> (None, st'\<lparr>xlog := xlog st' @ [FetchFailed cty mr]\<rparr>))"

definition build_url :: "config \<Rightarrow> string \<Rightarrow> string \<Rightarrow> string" where
  "build_url cfg lat lon =
     API_BASE cfg @ ''?latitude='' @ lat @ ''&longitude='' @ lon
       @ ''&hourly='' @ HOURLY_FIELDS cfg"

definition path_join :: "string \<Rightarrow> string \<Rightarrow> string" where
  "path_join dir nm = (if dir = [] \<or> last dir = CHR ''/'' then dir @ nm else dir @ ''/'' @ nm)"

text \<open>
  \<open>time.sleep\<close> on a float. The conversion of the duration to nanoseconds comes
  first: it raises \<open>ValueError\<close> for NaN and \<open>OverflowError\<close> for a duration that
  does not fit 64 bits (an infinite one is such). Then a negative duration raises
  \<open>ValueError\<close>. Otherwise the call sleeps; the result is then the duration slept.
\<close>

definition time_sleep :: "pyfloat \<Rightarrow> py_error + real" where
  "time_sleep secs =
     (case secs of
        NaN \<Rightarrow> Inl (ValueError ''Invalid value NaN (not a number)'')
      | PosInf \<Rightarrow> Inl (OverflowError ''timestamp too large to convert to C _PyTime_t'')
      | NegInf \<Rightarrow> Inl (OverflowError ''timestamp too large to convert to C _PyTime_t'')
      | Finite x \<Rightarrow>
          if x * 10 ^ 9 < - (2 ^ 63) \<or> 2 ^ 63 \<le> x * 10 ^ 9
          then Inl (OverflowError ''timestamp too large to convert to C _PyTime_t'')
          else if x < 0 then Inl (ValueError ''sleep length must be non-negative'')
          else Inr x)"

text \<open>
  The loop of \<open>extract_air_quality\<close> over the cities still to fetch, with the list of
  saved files so far. A city that is not in the table raises \<open>KeyError\<close>, a file that
  cannot be opened raises \<open>OSError\<close>, and the sleep after a saved file raises for a
  duration that \<open>time.sleep\<close> refuses; each leaves the function.
\<close>

fun extract_cities ::
  "config \<Rightarrow> 'j world \<Rightarrow> string list \<Rightarrow> string list \<Rightarrow> 'j xstate
     \<Rightarrow> py_error + (string list \<times> 'j xstate)" where
  "extract_cities cfg w [] saved_files st = Inr (saved_files, st)"
| "extract_cities cfg w (cty # rest) saved_files st =
     (case CITY_COORDS cty of
        None \<Rightarrow> Inl (KeyError cty)
      | Some (lat, lon) \<Rightarrow>
          (case fetch_with_retry (http_get w) (MAX_RETRIES cfg) (build_url cfg lat lon) cty st of
             (None, st1) \<Rightarrow> extract_cities cfg w rest saved_files st1
           | (Some data, st1) \<Rightarrow>
               let timestamp = strftime_now w (clock_reads st1);
                   filepath = path_join (RAW_DIR cfg) (raw_file_name cty timestamp)
               in if \<not> can_write w filepath then Inl (OSError filepath)
                  else
                    (case time_sleep (SLEEP_BETWEEN cfg) of
                       Inl e \<Rightarrow> Inl e
                     | Inr secs \<Rightarrow>
                         extract_cities cfg w rest (saved_files @ [filepath])
                           (st1\<lparr>clock_reads := Suc (clock_reads st1),
                                written := written st1 @ [(filepath, data)],
                                xlog := xlog st1 @ [SavedRaw filepath, Slept secs]\<rparr>))))"

definition xstate0 :: "'j xstate" where
  "xstate0 = \<lparr>requests = 0, clock_reads = 0, xlog = [], written = []\<rparr>"

definition extract_air_quality ::
  "config \<Rightarrow> 'j world \<Rightarrow> py_error + (string list \<times> 'j xstate)" where
  "extract_air_quality cfg w = extract_cities cfg w (CITIES cfg) [] xstate0"

text \<open>Readings of a log of the extraction.\<close>

fun is_failure :: "xevent \<Rightarrow> bool" where
  "is_failure (ApiError s c) = True"
| "is_failure (RequestFailed c) = True"
| "is_failure e = False"

text \<open>Every failed attempt of the log is directly followed by a sleep of one second.\<close>

fun sleeps_after_failures :: "xevent list \<Rightarrow> bool" where
  "sleeps_after_failures [] = True"
| "sleeps_after_failures [e] = (\<not> is_failure e)"
| "sleeps_after_failures (e # e' # es) =
     ((if is_failure e then e' = Slept 1 else True) \<and> sleeps_after_failures (e' # es))"

text \<open>The cities whose fetch was started, in the order of the log.\<close>

fun fetched_cities :: "xevent list \<Rightarrow> string list" where
  "fetched_cities [] = []"
| "fetched_cities (Fetching c a m # es) =
     (if a = 1 then c # fetched_cities es else fetched_cities es)"
| "fetched_cities (e # es) = fetched_cities es"

text \<open>
  An answer after which \<open>fetch_with_retry\<close> tries again: the request raised, the
  status is not 200, or the body could not be decoded.
\<close>

fun failed_response :: "'j http_result \<Rightarrow> bool" where
  "failed_response RequestRaises = True"
| "failed_response (Response status_code JsonRaises) = True"
| "failed_response (Response status_code body) = (status_code \<noteq> 200)"

text \<open>The line that is printed for such an answer.\<close>

fun failure_entry :: "string \<Rightarrow> 'j http_result \<Rightarrow> xevent" where
  "failure_entry cty RequestRaises = RequestFailed cty"
| "failure_entry cty (Response status_code body) =
     (if status_code = 200 then RequestFailed cty else ApiError status_code cty)"

text \<open>
  The log of a run of failed attempts: for each attempt number and its answer, the
  progress line, the failure line and the sleep of one second.
\<close>

definition retry_blocks :: "string \<Rightarrow> int \<Rightarrow> int list \<Rightarrow> 'j http_result list \<Rightarrow> xevent list" where
  "retry_blocks cty mr attempts answers =
     concat (map (\<lambda>(attempt, answer).
                    [Fetching cty attempt mr, failure_entry cty answer, Slept 1])
                 (zip attempts answers))"

section \<open>Load: load.py\<close>

text \<open>
  The staged file as \<open>load_data\<close> finds it: absent, lacking one of the allowed columns,
  or a list of records (after the column selection and the replacement of NaN).
\<close>

datatype 'r staged = NoStagedFile | MissingColumn string | StagedRows "'r list"

datatype levent =
    Uploading nat
  | UploadedBatch nat nat
  | Retry nat nat nat
  | LSlept real
  | CouldNotUpload nat nat
  | UploadCompleted

text \<open>
  The state of a load: the number of insert calls made, the rows that the calls of this
  run stored in the remote table, and the log.
\<close>

record 'r lstate =
  inserts :: nat
  stored :: "'r list"
  llog :: "levent list"

text \<open>
  The \<open>while\<close> loop of lines 76 to 86. Whether the n-th insert call of the run succeeds
  on a batch is the parameter \<open>ins\<close>; a failure is the exception that the call raises.
\<close>

function upload_attempts ::
  "(nat \<Rightarrow> 'r list \<Rightarrow> bool) \<Rightarrow> 'r list \<Rightarrow> nat \<Rightarrow> nat \<Rightarrow> nat \<Rightarrow> bool \<Rightarrow> 'r lstate
     \<Rightarrow> bool \<times> 'r lstate" where
  "upload_attempts ins batch start endi attempts success st =
     (if attempts < 3 \<and> \<not> success then
        (if ins (inserts st) batch then
           upload_attempts ins batch start endi attempts True
             (st\<lparr>inserts := Suc (inserts st),
                 stored := stored st @ batch,
                 llog := llog st @ [UploadedBatch start endi]\<rparr>)
         else
           upload_attempts ins batch start endi (attempts + 1) success
             (st\<lparr>inserts := Suc (inserts st),
                 llog := llog st @ [Retry (attempts + 1) start endi, LSlept 2]\<rparr>))
      else (success, st))"
  by pat_completeness auto
termination
  by (relation "measure (\<lambda>(ins, batch, start, endi, attempts, success, st).
                  (3 - attempts) + (if success then 0 else 1))") auto

definition batch_size :: nat where
  "batch_size = 200"

text \<open>The \<open>for\<close> loop of lines 69 to 90 from a given start index; it ends at the \<open>break\<close>.\<close>

function upload_batches ::
  "(nat \<Rightarrow> 'r list \<Rightarrow> bool) \<Rightarrow> 'r list \<Rightarrow> nat \<Rightarrow> 'r lstate \<Rightarrow> 'r lstate" where
  "upload_batches ins rows start st =
     (if start < length rows then
        (let endi = min (start + batch_size) (length rows);
             batch = take (endi - start) (drop start rows)
         in case upload_attempts ins batch start endi 0 False st of
              (success, st') \<Rightarrow>
                if \<not> success then st'\<lparr>llog := llog st' @ [CouldNotUpload start endi]\<rparr>
                else upload_batches ins rows (start + batch_size) st')
      else st)"
  by pat_completeness auto
termination
  by (relation "measure (\<lambda>(ins, rows, start, st). length rows - start)")
     (auto simp: batch_size_def)

text \<open>\<open>load_data\<close> returns no value; the result is the state it leaves.\<close>

definition load_data ::
  "(nat \<Rightarrow> 'r list \<Rightarrow> bool) \<Rightarrow> 'r staged \<Rightarrow> py_error + 'r lstate" where
  "load_data ins staged_file =
     (case staged_file of
        NoStagedFile \<Rightarrow> Inl (FileNotFoundError '' Staged file not found. Run transform.py first.'')
      | MissingColumn c \<Rightarrow> Inl (KeyError c)
      | StagedRows rows \<Rightarrow>
          let st0 = \<lparr>inserts = 0, stored = [], llog = [Uploading (length rows)]\<rparr>;
              st1 = upload_batches ins rows 0 st0
          in Inr (st1\<lparr>llog := llog st1 @ [UploadCompleted]\<rparr>))"

text \<open>Readings of a log of the load.\<close>

text \<open>The start indices of the batches for which an insert call was made.\<close>

fun attempted_batches :: "levent list \<Rightarrow> nat list" where
  "attempted_batches [] = []"
| "attempted_batches (UploadedBatch s e # es) = s # attempted_batches es"
| "attempted_batches (Retry a s e # es) = s # attempted_batches es"
| "attempted_batches (ev # es) = attempted_batches es"

text \<open>The start indices of the batches given up after the third failed attempt.\<close>

fun failed_batches :: "levent list \<Rightarrow> nat list" where
  "failed_batches [] = []"
| "failed_batches (CouldNotUpload s e # es) = s # failed_batches es"
| "failed_batches (ev # es) = failed_batches es"

definition reports_success :: "levent list \<Rightarrow> bool" where
  "reports_success evs = (UploadCompleted \<in> set evs)"

section \<open>Orchestration: run_pipeline.py\<close>

text \<open>
  What a call of a stage does: it returns, it raises an exception of class
  \<open>Exception\<close> (with its message and the formatted traceback), or it raises one that
  \<open>except Exception\<close> does not catch, such as \<open>SystemExit\<close>.
\<close>

datatype stage_result =
    Returns
  | RaisesException string string
  | RaisesOther string

datatype pevent =
    Banner
  | Starting string
  | CompletedIn string real
  | ErrorIn string string
  | Traceback string
  | PipelineFinished

text \<open>
  The state of a run: the outside on which the stages act, the number of readings of
  \<open>time.time()\<close> made, and the log.
\<close>

record 'w pstate =
  outside :: 'w
  time_reads :: nat
  plog :: "pevent list"

text \<open>How a run ends before its last line: the \<open>SystemExit\<close> of \<open>run_step\<close>, or the
  exception that went through it.\<close>

datatype halt = PipelineStopped string | Uncaught string

text \<open>
  \<open>run_step\<close>, with the clock as the parameter \<open>time_time\<close> (its value at the n-th
  reading). The completion line prints the difference rounded to two decimals; the log
  holds the difference itself.
\<close>

definition run_step ::
  "(nat \<Rightarrow> real) \<Rightarrow> string \<Rightarrow> ('w \<Rightarrow> stage_result \<times> 'w) \<Rightarrow> 'w pstate
     \<Rightarrow> (halt \<times> 'w pstate) + 'w pstate" where
  "run_step time_time step_name step_function st =
     (let st1 = st\<lparr>plog := plog st @ [Starting step_name]\<rparr>;
          start = time_time (time_reads st1);
          st2 = st1\<lparr>time_reads := Suc (time_reads st1)\<rparr>
      in case step_function (outside st2) of
           (Returns, w') \<Rightarrow>
             let endi = time_time (time_reads st2)
             in Inr (st2\<lparr>outside := w', time_reads := Suc (time_reads st2),
                        plog := plog st2 @ [CompletedIn step_name (endi - start)]\<rparr>)
         | (RaisesException e tb, w') \<Rightarrow>
             Inl (PipelineStopped step_name,
                  st2\<lparr>outside := w',
                      plog := plog st2 @ [ErrorIn step_name e, Traceback tb]\<rparr>)
         | (RaisesOther b, w') \<Rightarrow>
             Inl (Uncaught b, st2\<lparr>outside := w'\<rparr>))"

text \<open>\<open>main\<close> of run_pipeline.py over its four stage functions.\<close>

definition main ::
  "(nat \<Rightarrow> real)
     \<Rightarrow> ('w \<Rightarrow> stage_result \<times> 'w) \<Rightarrow> ('w \<Rightarrow> stage_result \<times> 'w)
     \<Rightarrow> ('w \<Rightarrow> stage_result \<times> 'w) \<Rightarrow> ('w \<Rightarrow> stage_result \<times> 'w)
     \<Rightarrow> 'w \<Rightarrow> (halt \<times> 'w pstate) + 'w pstate" where
  "main time_time extract_air_quality_fn transform_data_fn load_data_fn run_analysis_fn w =
     (let st0 = \<lparr>outside = w, time_reads = 0, plog = [Banner]\<rparr>
      in case run_step time_time ''Extract Step'' extract_air_quality_fn st0 of
           Inl h \<Rightarrow> Inl h
         | Inr st1 \<Rightarrow>
      (case run_step time_time ''Transform Step'' transform_data_fn st1 of
           Inl h \<Rightarrow> Inl h
         | Inr st2 \<Rightarrow>
      (case run_step time_time ''Load Step (Supabase)'' load_data_fn st2 of
           Inl h \<Rightarrow> Inl h
         | Inr st3 \<Rightarrow>
      (case run_step time_time ''Analysis Step'' run_analysis_fn st3 of
           Inl h \<Rightarrow> Inl h
         | Inr st4 \<Rightarrow> Inr (st4\<lparr>plog := plog st4 @ [PipelineFinished]\<rparr>)))))"

definition step_names :: "string list" where
  "step_names = [''Extract Step'', ''Transform Step'', ''Load Step (Supabase)'', ''Analysis Step'']"

text \<open>Readings of a log of the pipeline.\<close>

fun started_steps :: "pevent list \<Rightarrow> string list" where
  "started_steps [] = []"
| "started_steps (Starting n # es) = n # started_steps es"
| "started_steps (e # es) = started_steps es"

text \<open>The log holds an elapsed time for the step.\<close>

fun elapsed_logged :: "string \<Rightarrow> pevent list \<Rightarrow> bool" where
  "elapsed_logged n [] = False"
| "elapsed_logged n (CompletedIn m d # es) = (m = n \<or> elapsed_logged n es)"
| "elapsed_logged n (e # es) = elapsed_logged n es"

definition final_state :: "(halt \<times> 'w pstate) + 'w pstate \<Rightarrow> 'w pstate" where
  "final_state r = (case r of Inl (h, st) \<Rightarrow> st | Inr st \<Rightarrow> st)"

section \<open>Analysis: etl_analysis.py\<close>

text \<open>
  The answer of the store to the query of \<open>fetch_table_as_df\<close>: the call raises, or the
  result carries its data, which may be absent.
\<close>

text \<open>A record of the store: its columns with their values.\<close>

type_synonym 'c dict = "(string \<times> 'c) list"

datatype 'c query_result = QueryRaises string | QueryData "'c dict list option"

text \<open>
  The data frame is the list of its rows; the conversion of a cell of a named column is
  the parameter \<open>convert\<close>. An absent or empty result gives the empty frame.
\<close>

definition fetch_table_as_df ::
  "(string \<Rightarrow> 'c \<Rightarrow> 'c) \<Rightarrow> 'c query_result \<Rightarrow> py_error + 'c dict list" where
  "fetch_table_as_df convert res =
     (case res of
        QueryRaises e \<Rightarrow> Inl (RuntimeError (''Supabase query failed: '' @ e))
      | QueryData None \<Rightarrow> Inr []
      | QueryData (Some d) \<Rightarrow>
          (if d = [] then Inr []
           else Inr (map (map (\<lambda>(k, v). (k, convert k v))) d)))"

text \<open>\<open>df.empty\<close>: the frame has no row or no column.\<close>

definition df_empty :: "'c dict list \<Rightarrow> bool" where
  "df_empty df = list_all (\<lambda>r. r = []) df"

text \<open>The summary row of \<open>compute_kpis\<close>.\<close>

record kpi_summary =
  city_highest_avg_pm2_5 :: "string option"
  highest_avg_pm2_5 :: num
  city_highest_avg_severity :: "string option"
  highest_avg_severity :: num
  worst_hour_of_day :: "int option"
  worst_hour_avg_pm2_5 :: num

datatype ('d, 't) artifact =
    SummaryMetrics kpi_summary
  | CityRiskDistribution "'d list"
  | PollutionTrends "'t list"
  | Plot string

datatype aevent = NoDataFound | CsvSaved | PlotsSaved | AnalysisComplete

record ('d, 't) astate =
  alog :: "aevent list"
  processed :: "('d, 't) artifact list"

text \<open>
  \<open>main\<close> of etl_analysis.py (imported by the pipeline as \<open>run_analysis\<close>). The pandas
  and matplotlib computations of the branch with data are the parameters
  \<open>compute_kpis\<close>, \<open>export_trends\<close> and \<open>make_plots\<close>, each of which may raise.
\<close>

definition run_analysis ::
  "(string \<Rightarrow> 'c \<Rightarrow> 'c)
     \<Rightarrow> ('c dict list \<Rightarrow> py_error + kpi_summary \<times> 'd list)
     \<Rightarrow> ('c dict list \<Rightarrow> py_error + 't list)
     \<Rightarrow> ('c dict list \<Rightarrow> py_error + string list)
     \<Rightarrow> 'c query_result \<Rightarrow> py_error + ('d, 't) astate" where
  "run_analysis convert compute_kpis export_trends make_plots res =
     (case fetch_table_as_df convert res of
        Inl e \<Rightarrow> Inl e
      | Inr df \<Rightarrow>
          if df_empty df then Inr \<lparr>alog = [NoDataFound], processed = []\<rparr>
          else
            (case compute_kpis df of
               Inl e \<Rightarrow> Inl e
             | Inr (summary_df, risk_dist) \<Rightarrow>
            (case export_trends df of
               Inl e \<Rightarrow> Inl e
             | Inr trends \<Rightarrow>
            (case make_plots df of
               Inl e \<Rightarrow> Inl e
             | Inr plots \<Rightarrow>
                 Inr \<lparr>alog = [CsvSaved, PlotsSaved, AnalysisComplete],
                      processed = [SummaryMetrics summary_df, CityRiskDistribution risk_dist,
                                   PollutionTrends trends] @ map Plot plots\<rparr>))))"

text \<open>The summary whose fields are all absent.\<close>

definition null_summary :: kpi_summary where
  "null_summary =
     \<lparr>city_highest_avg_pm2_5 = None, highest_avg_pm2_5 = None,
      city_highest_avg_severity = None, highest_avg_severity = None,
      worst_hour_of_day = None, worst_hour_avg_pm2_5 = None\<rparr>"

text \<open>
  The result that the specification words for a store without rows: the summary with
  every field absent, an empty distribution and an empty trend table.
\<close>

definition yields_null_summary :: "('d, 't) astate \<Rightarrow> bool" where
  "yields_null_summary st =
     (SummaryMetrics null_summary \<in> set (processed st)
      \<and> CityRiskDistribution [] \<in> set (processed st)
      \<and> PollutionTrends [] \<in> set (processed st))"

section \<open>Example inputs\<close>

text \<open>
  The library on integers that stay below \<open>2 ^ 53\<close> in magnitude: there \<open>float64\<close>
  and \<open>int64\<close> arithmetic are exact and agree, whatever the column's type. It stands
  for the library in the examples, whose numbers are small integers.
\<close>

definition small_int_lib :: "int numlib" where
  "small_int_lib =
     \<lparr>of_int = (\<lambda>col i. i), of_float = (\<lambda>col x. \<lfloor>x\<rfloor>), of_str = (\<lambda>col s. None),
      times = (\<lambda>v k. v * k), plus = (\<lambda>u v. Some (u + v)), exact = real_of_int\<rparr>"

text \<open>The row of the specification's example.\<close>

definition example_row :: "int typed_row" where
  "example_row = \<lparr>city = ''Delhi'', time = None, pm10 = Some 40, pm2_5 = Some 60,
     carbon_monoxide = Some 2, nitrogen_dioxide = Some 10, sulphur_dioxide = Some 5,
     ozone = Some 20, uv_index = None\<rparr>"

text \<open>A raw file of two hours, the second without a pm2_5 reading.\<close>

definition example_file :: raw_file where
  "example_file = \<lparr>file_name = ''Delhi_raw_20240101_000000.json'',
     hourly = Some [''time'' \<mapsto> [JStr ''2024-01-01T00:00'', JStr ''2024-01-01T01:00''],
                    ''pm10'' \<mapsto> [JInt 40, JInt 40],
                    ''pm2_5'' \<mapsto> [JInt 60, JNull],
                    ''carbon_monoxide'' \<mapsto> [JInt 2, JInt 2],
                    ''nitrogen_dioxide'' \<mapsto> [JInt 10, JInt 10],
                    ''sulphur_dioxide'' \<mapsto> [JInt 5, JInt 5],
                    ''ozone'' \<mapsto> [JInt 20, JInt 20],
                    ''uv_index'' \<mapsto> [JNull, JNull]]\<rparr>"

text \<open>The raw file that the extraction would name for a city called \<open>New_Delhi\<close>.\<close>

definition underscore_file :: raw_file where
  "underscore_file = \<lparr>file_name = raw_file_name ''New_Delhi'' ''20240101_000000'',
     hourly = Some [''time'' \<mapsto> [JStr ''2024-01-01T00:00''],
                    ''pm10'' \<mapsto> [JInt 40],
                    ''pm2_5'' \<mapsto> [JInt 60],
                    ''carbon_monoxide'' \<mapsto> [JInt 2],
                    ''nitrogen_dioxide'' \<mapsto> [JInt 10],
                    ''sulphur_dioxide'' \<mapsto> [JInt 5],
                    ''ozone'' \<mapsto> [JInt 20],
                    ''uv_index'' \<mapsto> [JInt 1]]\<rparr>"

text \<open>A raw file of one hour in which only the UV index was measured.\<close>

definition uv_only_file :: raw_file where
  "uv_only_file = \<lparr>file_name = ''Delhi_raw_20240101_000000.json'',
     hourly = Some [''time'' \<mapsto> [JStr ''2024-01-01T00:00''],
                    ''pm10'' \<mapsto> [JNull],
                    ''pm2_5'' \<mapsto> [JNull],
                    ''carbon_monoxide'' \<mapsto> [JNull],
                    ''nitrogen_dioxide'' \<mapsto> [JNull],
                    ''sulphur_dioxide'' \<mapsto> [JNull],
                    ''ozone'' \<mapsto> [JNull],
                    ''uv_index'' \<mapsto> [JInt 3]]\<rparr>"

text \<open>The log and the stored rows of a load, empty when \<open>load_data\<close> raises.\<close>

definition load_log :: "(nat \<Rightarrow> 'r list \<Rightarrow> bool) \<Rightarrow> 'r staged \<Rightarrow> levent list" where
  "load_log ins staged_file = (case load_data ins staged_file of Inl e \<Rightarrow> [] | Inr st \<Rightarrow> llog st)"

definition load_stored :: "(nat \<Rightarrow> 'r list \<Rightarrow> bool) \<Rightarrow> 'r staged \<Rightarrow> 'r list" where
  "load_stored ins staged_file = (case load_data ins staged_file of Inl e \<Rightarrow> [] | Inr st \<Rightarrow> stored st)"

text \<open>A store that refuses the first three insert calls of a run and accepts every later one.\<close>

definition first_batch_down :: "nat \<Rightarrow> nat list \<Rightarrow> bool" where
  "first_batch_down n batch = (3 \<le> n)"

text \<open>A store that accepts the first insert call, refuses the next three and accepts every later one.\<close>

definition second_batch_down :: "nat \<Rightarrow> nat list \<Rightarrow> bool" where
  "second_batch_down n batch = (n = 0 \<or> 4 \<le> n)"

text \<open>A staged file of 401 rows: three batches.\<close>

definition rows_401 :: "nat list" where
  "rows_401 = replicate 200 0 @ replicate 200 1 @ [2]"

text \<open>A staged file of 201 rows: two batches.\<close>

definition rows_201 :: "nat list" where
  "rows_201 = replicate 200 0 @ [1]"

text \<open>
  Stages for the examples, on an outside without content: one that returns and one that
  raises an exception; and a clock that advances by one second at each reading.
\<close>

definition stage_ok :: "unit \<Rightarrow> stage_result \<times> unit" where
  "stage_ok w = (Returns, w)"

definition stage_boom :: "unit \<Rightarrow> stage_result \<times> unit" where
  "stage_boom w = (RaisesException ''boom'' ''Traceback (most recent call last): ...'', w)"

definition tick :: "nat \<Rightarrow> real" where
  "tick n = real n"

text \<open>
  Stages that leave a trace on the outside, here the list of the stages that have acted:
  one that appends its number and returns, one that appends its number and raises.
\<close>

definition stage_mark :: "nat \<Rightarrow> nat list \<Rightarrow> stage_result \<times> nat list" where
  "stage_mark k w = (Returns, w @ [k])"

definition stage_fail :: "nat \<Rightarrow> nat list \<Rightarrow> stage_result \<times> nat list" where
  "stage_fail k w = (RaisesException ''boom'' ''Traceback (most recent call last): ...'', w @ [k])"

text \<open>
  A configuration of two cities, and an outside whose server refuses the first three
  requests of the run: every attempt for the first city.
\<close>

definition example_config :: config where
  "example_config =
     \<lparr>API_BASE = ''https://api.example/v1/air-quality'', HOURLY_FIELDS = ''pm10,pm2_5'',
      CITIES = [''Delhi'', ''Mumbai''], MAX_RETRIES = 3, SLEEP_BETWEEN = Finite (1 / 2),
      RAW_DIR = ''data/raw''\<rparr>"

definition delhi_down :: "nat world" where
  "delhi_down =
     \<lparr>http_get = (\<lambda>n url. if n < 3 then Response 503 JsonRaises else Response 200 (Json 7)),
      strftime_now = (\<lambda>n. ''20240101_000000''),
      can_write = (\<lambda>p. True)\<rparr>"

text \<open>A server that lets the first two requests of the run fail with an exception.\<close>

definition flaky_get :: "nat \<Rightarrow> string \<Rightarrow> nat http_result" where
  "flaky_get n url = (if n < 2 then RequestRaises else Response 200 (Json 7))"

text \<open>A configuration whose only city has an underscore in its name.\<close>

definition underscore_config :: config where
  "underscore_config =
     \<lparr>API_BASE = ''https://api.example/v1/air-quality'', HOURLY_FIELDS = ''pm10,pm2_5'',
      CITIES = [''New_Delhi''], MAX_RETRIES = 3, SLEEP_BETWEEN = Finite (1 / 2),
      RAW_DIR = ''data/raw''\<rparr>"
section \<open>Properties of the feature functions\<close>

text \<open>
  C4. For every pm2_5 value \<open>v\<close>, \<open>aqi_category v\<close> is defined and is: "Unknown" when
  \<open>v\<close> is missing; "Good" when \<open>v \<le> 50\<close>; "Moderate" when \<open>50 < v \<le> 100\<close>;
  "Unhealthy" when \<open>100 < v \<le> 200\<close>; "Very Unhealthy" when \<open>200 < v \<le> 300\<close>;
  "Hazardous" when \<open>v > 300\<close>.
\<close>

theorem aqi_category_bands:
  "(v = None \<longrightarrow> aqi_category v = ''Unknown'')
   \<and> (\<forall>x. v = Some x \<longrightarrow>
          (x \<le> 50 \<longrightarrow> aqi_category v = ''Good'')
        \<and> (50 < x \<and> x \<le> 100 \<longrightarrow> aqi_category v = ''Moderate'')
        \<and> (100 < x \<and> x \<le> 200 \<longrightarrow> aqi_category v = ''Unhealthy'')
        \<and> (200 < x \<and> x \<le> 300 \<longrightarrow> aqi_category v = ''Very Unhealthy'')
        \<and> (300 < x \<longrightarrow> aqi_category v = ''Hazardous''))"
  by (cases v) (simp_all add: aqi_category_def nan_le_def)

theorem aqi_category_bands_witness:
  "aqi_category None = ''Unknown''
   \<and> aqi_category (Some 50) = ''Good''
   \<and> aqi_category (Some 60) = ''Moderate''
   \<and> aqi_category (Some 200) = ''Unhealthy''
   \<and> aqi_category (Some 300) = ''Very Unhealthy''
   \<and> aqi_category (Some 301) = ''Hazardous''"
  using aqi_category_bands [of None] aqi_category_bands [of "Some 50"]
    aqi_category_bands [of "Some 60"] aqi_category_bands [of "Some 200"]
    aqi_category_bands [of "Some 300"] aqi_category_bands [of "Some 301"]
  by simp

text \<open>
  C5. For every severity \<open>s\<close>, missing or not, \<open>classify_risk s\<close> is one of three
  labels: "High Risk" exactly when \<open>s > 400\<close>, "Moderate Risk" exactly when
  \<open>200 < s \<le> 400\<close>, and "Low Risk" otherwise; a missing severity is "Low Risk".
\<close>

theorem classify_risk_buckets:
  "(classify_risk s = ''High Risk'' \<longleftrightarrow> (\<exists>x. s = Some x \<and> x > 400))
   \<and> (classify_risk s = ''Moderate Risk'' \<longleftrightarrow> (\<exists>x. s = Some x \<and> 200 < x \<and> x \<le> 400))
   \<and> (classify_risk s = ''Low Risk'' \<longleftrightarrow> (s = None \<or> (\<exists>x. s = Some x \<and> x \<le> 200)))
   \<and> classify_risk s \<in> {''High Risk'', ''Moderate Risk'', ''Low Risk''}
   \<and> classify_risk None = ''Low Risk''"
  by (cases s) (auto simp add: classify_risk_def nan_gt_def)

theorem classify_risk_buckets_witness:
  "classify_risk (Some 544) = ''High Risk''
   \<and> classify_risk (Some 400) = ''Moderate Risk''
   \<and> classify_risk (Some 200) = ''Low Risk''"
  using classify_risk_buckets [of "Some 544"] classify_risk_buckets [of "Some 400"]
    classify_risk_buckets [of "Some 200"]
  by simp

section \<open>Properties of transform_data\<close>

lemma transform_data_rows:
  assumes "transform_data lib td files = Inr (Some staged)"
  shows "staged = map (enrich lib) (dropna_all num_cols
           (map (coerce_row lib td (concat (map rows_of_file files)))
                (concat (map rows_of_file files))))"
  using assms by (simp add: transform_data_def Let_def split: if_splits)

lemma transform_data_by_file:
  assumes "transform_data lib td files = Inr (Some staged)"
  shows "staged = concat (map (staged_of_file lib td (concat (map rows_of_file files))) files)"
proof -
  have "\<And>g fs. map (enrich lib) (dropna_all num_cols (map g (concat (map rows_of_file fs))))
          = concat (map (\<lambda>f. map (enrich lib) (dropna_all num_cols (map g (rows_of_file f)))) fs)"
    by (simp add: dropna_all_def map_concat filter_concat comp_def)
  with transform_data_rows [OF assms] show ?thesis
    by (simp add: staged_of_file_def [abs_def])
qed

lemma enrich_fields:
  "pm2_5 (enrich lib r) = pm2_5 r" "pm10 (enrich lib r) = pm10 r"
  "nitrogen_dioxide (enrich lib r) = nitrogen_dioxide r"
  "sulphur_dioxide (enrich lib r) = sulphur_dioxide r"
  "carbon_monoxide (enrich lib r) = carbon_monoxide r" "ozone (enrich lib r) = ozone r"
  "uv_index (enrich lib r) = uv_index r" "city (enrich lib r) = city r"
  "time (enrich lib r) = time r"
  "severity (enrich lib r) = severity_expr lib r"
  by (simp_all add: enrich_def)

lemma severity_expr_spec:
  "severity_expr lib r =
     severity_score_spec lib (pm2_5 r) (pm10 r) (nitrogen_dioxide r) (sulphur_dioxide r)
       (carbon_monoxide r) (ozone r)"
  by (cases "pm2_5 r"; cases "pm10 r"; cases "nitrogen_dioxide r"; cases "sulphur_dioxide r";
      cases "carbon_monoxide r"; cases "ozone r")
     (simp_all add: severity_expr_def severity_score_spec_def nan_add_def nan_mul_def
        split: option.splits)

lemma sum_from_None: "sum_from lib None xs = None"
  by (induction xs) simp_all

lemma sum_from_total:
  "\<forall>u v. plus lib u v \<noteq> None \<Longrightarrow> sum_from lib (Some a) xs \<noteq> None"
proof (induction xs arbitrary: a)
  case Nil
  then show ?case by simp
next
  case (Cons x xs)
  from Cons.prems have "plus lib a x \<noteq> None" by blast
  then obtain b where "plus lib a x = Some b" by auto
  with Cons show ?case by simp
qed

lemma example_file_rows:
  "rows_of_file example_file =
     [\<lparr>city = ''Delhi'', time = JStr ''2024-01-01T00:00'', pm10 = JInt 40, pm2_5 = JInt 60,
       carbon_monoxide = JInt 2, nitrogen_dioxide = JInt 10, sulphur_dioxide = JInt 5,
       ozone = JInt 20, uv_index = JNull\<rparr>,
      \<lparr>city = ''Delhi'', time = JStr ''2024-01-01T01:00'', pm10 = JInt 40, pm2_5 = JNull,
       carbon_monoxide = JInt 2, nitrogen_dioxide = JInt 10, sulphur_dioxide = JInt 5,
       ozone = JInt 20, uv_index = JNull\<rparr>]"
  by (simp add: rows_of_file_def example_file_def get_list_def city_of_file_def)

lemma example_file_staged:
  "transform_data small_int_lib td [example_file] =
     Inr (Some (map (enrich small_int_lib)
       [\<lparr>city = ''Delhi'', time = td (JStr ''2024-01-01T00:00''), pm10 = Some 40,
         pm2_5 = Some 60, carbon_monoxide = Some 2, nitrogen_dioxide = Some 10,
         sulphur_dioxide = Some 5, ozone = Some 20, uv_index = None\<rparr>,
        \<lparr>city = ''Delhi'', time = td (JStr ''2024-01-01T01:00''), pm10 = Some 40,
         pm2_5 = None, carbon_monoxide = Some 2, nitrogen_dioxide = Some 10,
         sulphur_dioxide = Some 5, ozone = Some 20, uv_index = None\<rparr>]))"
  by (simp add: transform_data_def example_file_rows coerce_row_def to_numeric_def
      dropna_all_def num_cols_def small_int_lib_def)

lemma sum_from_exact:
  assumes "\<forall>u v. \<exists>w. plus lib u v = Some w \<and> exact lib w = exact lib u + exact lib v"
  shows "\<exists>w. sum_from lib (Some x) xs = Some w
           \<and> exact lib w = exact lib x + sum_list (map (exact lib) xs)"
proof (induction xs arbitrary: x)
  case Nil
  then show ?case by simp
next
  case (Cons y ys)
  from assms obtain w where w: "plus lib x y = Some w" "exact lib w = exact lib x + exact lib y"
    by blast
  from Cons [of w] obtain z where
    "sum_from lib (Some w) ys = Some z"
    "exact lib z = exact lib w + sum_list (map (exact lib) ys)"
    by blast
  with w show ?case by simp
qed

lemma severity_score_spec_exact:
  assumes "\<forall>v k. exact lib (times lib v k) = exact lib v * real_of_int k"
    and "\<forall>u v. \<exists>w. plus lib u v = Some w \<and> exact lib w = exact lib u + exact lib v"
  shows "map_option (exact lib)
           (severity_score_spec lib (Some a) (Some b) (Some c) (Some d) (Some e) (Some f))
         = Some (5 * exact lib a + 3 * exact lib b + 4 * exact lib c + 4 * exact lib d
                   + 2 * exact lib e + 3 * exact lib f)"
proof -
  from sum_from_exact [OF assms(2), of "times lib a 5"
      "[times lib b 3, times lib c 4, times lib d 4, times lib e 2, times lib f 3]"]
  obtain w where
    "sum_from lib (Some (times lib a 5))
       [times lib b 3, times lib c 4, times lib d 4, times lib e 2, times lib f 3] = Some w"
    "exact lib w = exact lib (times lib a 5)
       + sum_list (map (exact lib)
           [times lib b 3, times lib c 4, times lib d 4, times lib e 2, times lib f 3])"
    by blast
  with assms(1) show ?thesis
    by (simp add: severity_score_spec_def del: sum_from.simps)
qed

text \<open>
  C1. Every staged row carries the severity
  \<open>5 * pm2_5 + 3 * pm10 + 4 * nitrogen_dioxide + 4 * sulphur_dioxide + 2 * carbon_monoxide + 3 * ozone\<close>
  of its own cells, computed in the library's arithmetic in this order, and the severity
  is missing whenever one of the six cells is missing (no missing cell counts as zero);
  where the library's sums are never missing, it is missing only then. Where the
  library's products and sums are exact (no rounding, no wrap-around), the severity of
  six present cells is that expression on their values. The row with
  pm2_5 = 60, pm10 = 40, nitrogen_dioxide = 10, sulphur_dioxide = 5, carbon_monoxide = 2,
  ozone = 20 gets 544, alone and as a row of a raw file.
\<close>

theorem severity_null_propagating:
  "(transform_data lib td files = Inr (Some staged) \<longrightarrow>
      (\<forall>s \<in> set staged.
         severity s = severity_score_spec lib (pm2_5 s) (pm10 s) (nitrogen_dioxide s)
                        (sulphur_dioxide s) (carbon_monoxide s) (ozone s)
         \<and> (pm2_5 s = None \<or> pm10 s = None \<or> nitrogen_dioxide s = None
              \<or> sulphur_dioxide s = None \<or> carbon_monoxide s = None \<or> ozone s = None
            \<longrightarrow> severity s = None)))
   \<and> ((\<forall>u v. plus lib u v \<noteq> None) \<longrightarrow>
        (severity_score_spec lib a b c d e f = None \<longleftrightarrow>
           a = None \<or> b = None \<or> c = None \<or> d = None \<or> e = None \<or> f = None))
   \<and> ((\<forall>v k. exact lib (times lib v k) = exact lib v * real_of_int k)
        \<and> (\<forall>u v. \<exists>w. plus lib u v = Some w \<and> exact lib w = exact lib u + exact lib v) \<longrightarrow>
        map_option (exact lib)
          (severity_score_spec lib (Some p25) (Some p10) (Some no2) (Some so2) (Some co) (Some o3))
        = Some (5 * exact lib p25 + 3 * exact lib p10 + 4 * exact lib no2 + 4 * exact lib so2
                  + 2 * exact lib co + 3 * exact lib o3))
   \<and> severity (enrich small_int_lib example_row) = Some 544
   \<and> map severity (staged_rows (transform_data small_int_lib td [example_file]))
       = [Some 544, None]"
proof (intro conjI impI ballI)
  fix s assume t: "transform_data lib td files = Inr (Some staged)" and s: "s \<in> set staged"
  from transform_data_rows [OF t] s obtain r where "s = enrich lib r" by auto
  then show e: "severity s = severity_score_spec lib (pm2_5 s) (pm10 s) (nitrogen_dioxide s)
                        (sulphur_dioxide s) (carbon_monoxide s) (ozone s)"
    by (simp add: enrich_fields severity_expr_spec)
  assume "pm2_5 s = None \<or> pm10 s = None \<or> nitrogen_dioxide s = None
              \<or> sulphur_dioxide s = None \<or> carbon_monoxide s = None \<or> ozone s = None"
  with e show "severity s = None" by (simp add: severity_score_spec_def)
next
  assume "\<forall>u v. plus lib u v \<noteq> None"
  then have nn: "\<And>x xs. sum_from lib (Some x) xs \<noteq> None"
    by (rule sum_from_total)
  show "severity_score_spec lib a b c d e f = None \<longleftrightarrow>
           a = None \<or> b = None \<or> c = None \<or> d = None \<or> e = None \<or> f = None"
    by (auto simp: severity_score_spec_def nn simp del: sum_from.simps)
next
  assume "(\<forall>v k. exact lib (times lib v k) = exact lib v * real_of_int k)
        \<and> (\<forall>u v. \<exists>w. plus lib u v = Some w \<and> exact lib w = exact lib u + exact lib v)"
  then show "map_option (exact lib)
          (severity_score_spec lib (Some p25) (Some p10) (Some no2) (Some so2) (Some co) (Some o3))
        = Some (5 * exact lib p25 + 3 * exact lib p10 + 4 * exact lib no2 + 4 * exact lib so2
                  + 2 * exact lib co + 3 * exact lib o3)"
    using severity_score_spec_exact [of lib p25 p10 no2 so2 co o3] by blast
next
  show "severity (enrich small_int_lib example_row) = Some 544"
    by (simp add: enrich_fields severity_expr_def example_row_def nan_add_def nan_mul_def
        small_int_lib_def)
next
  show "map severity (staged_rows (transform_data small_int_lib td [example_file]))
       = [Some 544, None]"
    by (simp add: example_file_staged staged_rows_def enrich_fields)
       (simp add: severity_expr_def nan_add_def nan_mul_def small_int_lib_def)
qed

theorem severity_null_propagating_witness:
  "pm2_5 (staged_rows (transform_data small_int_lib (\<lambda>v. None) [example_file]) ! 1) = None
   \<and> map severity (staged_rows (transform_data small_int_lib (\<lambda>v. None) [example_file]))
       = [Some 544, None]
   \<and> map_option (exact small_int_lib)
         (severity_score_spec small_int_lib (Some 60) (Some 40) (Some 10) (Some 5) (Some 2)
            (Some 20))
       = Some 544"
proof -
  have x: "(\<forall>v k. exact small_int_lib (times small_int_lib v k)
                   = exact small_int_lib v * real_of_int k)
        \<and> (\<forall>u v. \<exists>w. plus small_int_lib u v = Some w
                   \<and> exact small_int_lib w = exact small_int_lib u + exact small_int_lib v)"
    by (simp add: small_int_lib_def)
  have "(\<forall>v k. exact small_int_lib (times small_int_lib v k)
                   = exact small_int_lib v * real_of_int k)
        \<and> (\<forall>u v. \<exists>w. plus small_int_lib u v = Some w
                   \<and> exact small_int_lib w = exact small_int_lib u + exact small_int_lib v)
      \<longrightarrow> map_option (exact small_int_lib)
          (severity_score_spec small_int_lib (Some 60) (Some 40) (Some 10) (Some 5) (Some 2)
             (Some 20))
        = Some (5 * exact small_int_lib 60 + 3 * exact small_int_lib 40
                  + 4 * exact small_int_lib 10 + 4 * exact small_int_lib 5
                  + 2 * exact small_int_lib 2 + 3 * exact small_int_lib 20)"
    using severity_null_propagating [where lib = small_int_lib and td = "\<lambda>v. None"
        and files = "[example_file]" and staged = "[]" and a = None and b = None and c = None
        and d = None and e = None and f = None and ?p25.0 = 60 and ?p10.0 = 40
        and ?no2.0 = 10 and ?so2.0 = 5 and co = 2 and ?o3.0 = 20]
    by (elim conjE)
  from this x have "map_option (exact small_int_lib)
          (severity_score_spec small_int_lib (Some 60) (Some 40) (Some 10) (Some 5) (Some 2)
             (Some 20))
        = Some (5 * exact small_int_lib 60 + 3 * exact small_int_lib 40
                  + 4 * exact small_int_lib 10 + 4 * exact small_int_lib 5
                  + 2 * exact small_int_lib 2 + 3 * exact small_int_lib 20)"
    by (rule mp)
  also have "\<dots> = Some 544"
    by (simp add: small_int_lib_def)
  finally have y: "map_option (exact small_int_lib)
         (severity_score_spec small_int_lib (Some 60) (Some 40) (Some 10) (Some 5) (Some 2)
            (Some 20))
       = Some 544" .
  let ?st = "staged_rows (transform_data small_int_lib (\<lambda>v. None) [example_file])"
  have t: "transform_data small_int_lib (\<lambda>v. None) [example_file] = Inr (Some ?st)"
    by (simp add: example_file_staged staged_rows_def)
  have n: "pm2_5 (?st ! 1) = None"
    by (simp add: example_file_staged staged_rows_def enrich_fields)
  have "\<forall>s \<in> set ?st.
         severity s = severity_score_spec small_int_lib (pm2_5 s) (pm10 s) (nitrogen_dioxide s)
                        (sulphur_dioxide s) (carbon_monoxide s) (ozone s)"
    using severity_null_propagating [of small_int_lib "\<lambda>v. None" "[example_file]" ?st] t
    by blast
  then have "map severity ?st =
      map (\<lambda>s. severity_score_spec small_int_lib (pm2_5 s) (pm10 s) (nitrogen_dioxide s)
                        (sulphur_dioxide s) (carbon_monoxide s) (ozone s)) ?st"
    by simp
  also have "\<dots> = [Some 544, None]"
    by (simp add: example_file_staged staged_rows_def enrich_fields)
       (simp add: severity_score_spec_def small_int_lib_def)
  finally show ?thesis using n y by simp
qed

lemma uv_only_file_rows:
  "rows_of_file uv_only_file =
     [\<lparr>city = ''Delhi'', time = JStr ''2024-01-01T00:00'', pm10 = JNull, pm2_5 = JNull,
       carbon_monoxide = JNull, nitrogen_dioxide = JNull, sulphur_dioxide = JNull,
       ozone = JNull, uv_index = JInt 3\<rparr>]"
  by (simp add: rows_of_file_def uv_only_file_def get_list_def city_of_file_def)

lemma dropna_num_cols_keeps:
  "r \<in> set (dropna_all num_cols rows) \<longleftrightarrow>
     r \<in> set rows \<and> (\<exists>c \<in> set num_cols. c r \<noteq> None)"
  by (auto simp: dropna_all_def list_all_iff)

text \<open>
  C3. The claim: a row whose six pollutant cells are all missing after the coercion is
  dropped before the staged file is written. The code drops a row only when the UV
  index is missing too, since \<open>dropna\<close> is given all seven numeric columns: the
  file below has one row, its six pollutant cells are missing, and the row is staged,
  whatever the library stores for its UV index.
\<close>

theorem uv_only_row_is_staged:
  "transform_data lib td [uv_only_file] =
     Inr (Some [enrich lib \<lparr>city = ''Delhi'', time = td (JStr ''2024-01-01T00:00''),
       pm10 = None, pm2_5 = None, carbon_monoxide = None, nitrogen_dioxide = None,
       sulphur_dioxide = None, ozone = None, uv_index = Some (of_int lib [JInt 3] 3)\<rparr>])
   \<and> list_all (\<lambda>c. list_all (\<lambda>r. c r = None)
        (map (coerce_row lib td (rows_of_file uv_only_file)) (rows_of_file uv_only_file)))
        six_pollutants"
  by (simp add: transform_data_def uv_only_file_rows coerce_row_def to_numeric_def
      dropna_all_def num_cols_def six_pollutants_def)

section \<open>The city of the staged rows\<close>

lemma split_sep_first:
  "\<exists>ws. split_sep c s = takeWhile (\<lambda>x. x \<noteq> c) s # ws"
  by (induction s) auto

lemma city_of_file_prefix: "city_of_file nm = takeWhile (\<lambda>x. x \<noteq> CHR ''_'') nm"
proof -
  obtain ws where "split_sep (CHR ''_'') nm = takeWhile (\<lambda>x. x \<noteq> CHR ''_'') nm # ws"
    using split_sep_first by blast
  then show ?thesis by (simp add: city_of_file_def)
qed

lemma rows_of_file_city:
  "r \<in> set (rows_of_file f) \<Longrightarrow> city r = city_of_file (file_name f)"
  by (auto simp: rows_of_file_def split: option.splits)

lemma coerce_row_city: "city (coerce_row lib td all_rows r) = city r"
  by (simp add: coerce_row_def)

lemma staged_of_file_city:
  "s \<in> set (staged_of_file lib td all_rows f) \<Longrightarrow>
     city s = takeWhile (\<lambda>x. x \<noteq> CHR ''_'') (file_name f)"
  using rows_of_file_city [of _ f]
  by (auto simp: staged_of_file_def dropna_all_def enrich_fields coerce_row_city
      city_of_file_prefix)

lemma takeWhile_raw_file_name:
  "takeWhile (\<lambda>x. x \<noteq> CHR ''_'') (raw_file_name cty ts) = takeWhile (\<lambda>x. x \<noteq> CHR ''_'') cty"
  by (induction cty) (simp_all add: raw_file_name_def)

lemma CITY_COORDS_keys:
  "cty \<in> dom CITY_COORDS \<Longrightarrow>
     cty = ''Delhi'' \<or> cty = ''Mumbai'' \<or> cty = ''Bengaluru'' \<or> cty = ''Hyderabad''
     \<or> cty = ''Kolkata''"
  by (auto simp: CITY_COORDS_def split: if_splits)

lemma CITY_COORDS_no_underscore:
  assumes "cty \<in> dom CITY_COORDS"
  shows "CHR ''_'' \<notin> set cty"
  using CITY_COORDS_keys [OF assms] by auto

lemma extract_cities_unknown_city:
  "c \<in> set cities \<Longrightarrow> CITY_COORDS c = None \<Longrightarrow>
     \<exists>e. extract_cities cfg w cities saved st = Inl e"
proof (induction cities arbitrary: saved st)
  case Nil
  then show ?case by simp
next
  case (Cons x xs)
  show ?case
  proof (cases "CITY_COORDS x")
    case None
    then show ?thesis by simp
  next
    case (Some ll)
    with Cons.prems have "c \<in> set xs" by auto
    from Cons.IH [OF this Cons.prems(2)] Some show ?thesis
      by (auto simp: Let_def split: prod.splits option.splits sum.splits)
  qed
qed

lemma underscore_file_rows:
  "rows_of_file underscore_file =
     [\<lparr>city = ''New'', time = JStr ''2024-01-01T00:00'', pm10 = JInt 40, pm2_5 = JInt 60,
       carbon_monoxide = JInt 2, nitrogen_dioxide = JInt 10, sulphur_dioxide = JInt 5,
       ozone = JInt 20, uv_index = JInt 1\<rparr>]"
  by (simp add: rows_of_file_def underscore_file_def get_list_def city_of_file_prefix
      raw_file_name_def)

lemma underscore_file_staged:
  "map city (staged_rows (transform_data lib td [underscore_file])) = [''New'']"
  by (simp add: transform_data_def underscore_file_rows staged_rows_def coerce_row_def
      to_numeric_def dropna_all_def num_cols_def enrich_fields)

text \<open>
  C10, as the code has it. The claim: a city whose configured name holds an underscore is
  silently truncated when its file is normalized. Such a city never gets that far: the
  coordinate table has no key with an underscore, and the extraction raises
  \<open>KeyError\<close> at the lookup, before any request is made or any file written.
\<close>

theorem underscore_city_is_not_extracted:
  "CHR ''_'' \<in> set ''New_Delhi''
   \<and> CITIES underscore_config = [''New_Delhi'']
   \<and> extract_air_quality underscore_config delhi_down = Inl (KeyError ''New_Delhi'')"
  by (simp add: extract_air_quality_def underscore_config_def CITY_COORDS_def)

text \<open>
  C10, amended. The staged file is, file after file, the rows that each raw file
  contributes, and every row that a file contributes carries as its city the part of
  that file's name before the first underscore: the city comes from the name, not from
  the content. A file whose name starts with a city holding an underscore is staged
  under the shorter name, but the extraction writes no such file: every city of the
  coordinate table is free of underscores and is recovered whole from the name of its
  file, and a configured city outside the table (every name with an underscore) makes
  the extraction raise.
\<close>

theorem city_from_file_name:
  "(transform_data lib td files = Inr (Some staged) \<longrightarrow>
      staged = concat (map (staged_of_file lib td (concat (map rows_of_file files))) files))
   \<and> (\<forall>s \<in> set (staged_of_file lib td all_rows f).
         city s = takeWhile (\<lambda>x. x \<noteq> CHR ''_'') (file_name f))
   \<and> city_of_file (raw_file_name cty ts) = takeWhile (\<lambda>x. x \<noteq> CHR ''_'') cty
   \<and> map city (staged_rows (transform_data lib td [underscore_file])) = [''New'']
   \<and> (cty \<in> dom CITY_COORDS \<longrightarrow>
         CHR ''_'' \<notin> set cty \<and> city_of_file (raw_file_name cty ts) = cty)
   \<and> (CHR ''_'' \<in> set c \<longrightarrow> CITY_COORDS c = None)
   \<and> (c \<in> set (CITIES cfg) \<and> CITY_COORDS c = None \<longrightarrow>
         (\<exists>e. extract_air_quality cfg w = Inl e))"
proof (intro conjI impI ballI)
  assume "transform_data lib td files = Inr (Some staged)"
  then show "staged = concat (map (staged_of_file lib td (concat (map rows_of_file files))) files)"
    by (rule transform_data_by_file)
next
  fix s assume "s \<in> set (staged_of_file lib td all_rows f)"
  then show "city s = takeWhile (\<lambda>x. x \<noteq> CHR ''_'') (file_name f)"
    by (rule staged_of_file_city)
next
  show p: "city_of_file (raw_file_name cty ts) = takeWhile (\<lambda>x. x \<noteq> CHR ''_'') cty"
    by (simp add: city_of_file_prefix takeWhile_raw_file_name)
  show "map city (staged_rows (transform_data lib td [underscore_file])) = [''New'']"
    by (rule underscore_file_staged)
  assume "cty \<in> dom CITY_COORDS"
  then show n: "CHR ''_'' \<notin> set cty" by (rule CITY_COORDS_no_underscore)
  then have "takeWhile (\<lambda>x. x \<noteq> CHR ''_'') cty = cty" by auto
  with p show "city_of_file (raw_file_name cty ts) = cty" by simp
next
  assume u: "CHR ''_'' \<in> set c"
  show "CITY_COORDS c = None"
  proof (cases "CITY_COORDS c")
    case None
    then show ?thesis .
  next
    case (Some ll)
    then have "c \<in> dom CITY_COORDS" by auto
    with CITY_COORDS_no_underscore u show ?thesis by blast
  qed
next
  assume "c \<in> set (CITIES cfg) \<and> CITY_COORDS c = None"
  with extract_cities_unknown_city [of c "CITIES cfg" cfg w "[]" xstate0]
  show "\<exists>e. extract_air_quality cfg w = Inl e"
    by (simp add: extract_air_quality_def)
qed

theorem city_from_file_name_witness:
  "transform_data small_int_lib (\<lambda>v. None) [underscore_file, example_file]
     = Inr (Some (staged_rows (transform_data small_int_lib (\<lambda>v. None)
                                 [underscore_file, example_file])))
   \<and> map city (staged_rows (transform_data small_int_lib (\<lambda>v. None)
                                 [underscore_file, example_file]))
       = [''New'', ''Delhi'', ''Delhi'']
   \<and> ''Delhi'' \<in> dom CITY_COORDS
   \<and> city_of_file (raw_file_name ''Delhi'' ''20240101_000000'') = ''Delhi''
   \<and> CHR ''_'' \<in> set ''New_Delhi''
   \<and> CITY_COORDS ''New_Delhi'' = None"
proof -
  let ?files = "[underscore_file, example_file]"
  let ?all = "concat (map rows_of_file ?files)"
  let ?st = "staged_rows (transform_data small_int_lib (\<lambda>v. None) ?files)"
  have t: "transform_data small_int_lib (\<lambda>v. None) ?files = Inr (Some ?st)"
    by (simp add: transform_data_def staged_rows_def underscore_file_rows example_file_rows
        Let_def)
  note cu = city_from_file_name [of small_int_lib "\<lambda>v. None" ?files ?st ?all underscore_file
              "''Delhi''" "''20240101_000000''" "''New_Delhi''" underscore_config delhi_down]
  note ce = city_from_file_name [of small_int_lib "\<lambda>v. None" ?files ?st ?all example_file
              "''Delhi''" "''20240101_000000''" "''New_Delhi''" underscore_config delhi_down]
  from cu t have s: "?st = concat (map (staged_of_file small_int_lib (\<lambda>v. None) ?all) ?files)"
    by blast
  from cu have bu: "\<forall>s \<in> set (staged_of_file small_int_lib (\<lambda>v. None) ?all underscore_file).
      city s = takeWhile (\<lambda>x. x \<noteq> CHR ''_'') (file_name underscore_file)"
    by blast
  from ce have be: "\<forall>s \<in> set (staged_of_file small_int_lib (\<lambda>v. None) ?all example_file).
      city s = takeWhile (\<lambda>x. x \<noteq> CHR ''_'') (file_name example_file)"
    by blast
  have l: "length (staged_of_file small_int_lib (\<lambda>v. None) ?all underscore_file) = 1"
    "length (staged_of_file small_int_lib (\<lambda>v. None) ?all example_file) = 2"
    by (simp_all add: staged_of_file_def underscore_file_rows example_file_rows
        coerce_row_def to_numeric_def dropna_all_def num_cols_def)
  have u: "map city (staged_of_file small_int_lib (\<lambda>v. None) ?all underscore_file)
             = replicate 1 (takeWhile (\<lambda>x. x \<noteq> CHR ''_'') (file_name underscore_file))"
    using bu l(1) by (intro replicate_eqI) auto
  have e: "map city (staged_of_file small_int_lib (\<lambda>v. None) ?all example_file)
             = replicate 2 (takeWhile (\<lambda>x. x \<noteq> CHR ''_'') (file_name example_file))"
    using be l(2) by (intro replicate_eqI) auto
  have fn: "file_name underscore_file = ''New_Delhi_raw_20240101_000000.json''"
    "file_name example_file = ''Delhi_raw_20240101_000000.json''"
    by (simp_all add: underscore_file_def example_file_def raw_file_name_def)
  have "map city ?st =
      map city (staged_of_file small_int_lib (\<lambda>v. None) ?all underscore_file)
      @ map city (staged_of_file small_int_lib (\<lambda>v. None) ?all example_file)"
    by (subst s) (simp only: list.map concat.simps append_Nil2 map_append)
  also have "\<dots> = [''New'', ''Delhi'', ''Delhi'']"
    unfolding u e by (simp add: fn numeral_2_eq_2)
  finally have m: "map city ?st = [''New'', ''Delhi'', ''Delhi'']" .
  have d: "''Delhi'' \<in> dom CITY_COORDS" by (simp add: CITY_COORDS_def)
  have k: "CHR ''_'' \<in> set ''New_Delhi''" by simp
  from cu d k t m show ?thesis by blast
qed
section \<open>Properties of load_data\<close>

declare upload_attempts.simps [simp del] upload_batches.simps [simp del]

lemma attempted_batches_append:
  "attempted_batches (xs @ ys) = attempted_batches xs @ attempted_batches ys"
  by (induction xs rule: attempted_batches.induct) simp_all

lemma failed_batches_append:
  "failed_batches (xs @ ys) = failed_batches xs @ failed_batches ys"
  by (induction xs rule: failed_batches.induct) simp_all

lemma upload_attempts_effect:
  "upload_attempts ins batch s e a success st = (ok, st') \<Longrightarrow>
     \<exists>L. llog st' = llog st @ L
        \<and> set (attempted_batches L) \<subseteq> {s}
        \<and> failed_batches L = []
        \<and> stored st' = stored st @ (if ok \<and> \<not> success then batch else [])
        \<and> (\<not> ok \<longrightarrow> attempted_batches L = replicate (3 - a) s)"
proof (induction ins batch s e a success st arbitrary: ok st' rule: upload_attempts.induct)
  case (1 ins batch s e a success st)
  show ?case
  proof (cases "a < 3 \<and> \<not> success")
    case False
    then have "upload_attempts ins batch s e a success st = (success, st)"
      by (subst upload_attempts.simps) auto
    with "1.prems" have "ok = success" "st' = st"
      by simp_all
    with False show ?thesis by auto
  next
    case c: True
    show ?thesis
    proof (cases "ins (inserts st) batch")
      case True
      let ?st1 = "st\<lparr>inserts := Suc (inserts st), stored := stored st @ batch,
                     llog := llog st @ [UploadedBatch s e]\<rparr>"
      have "upload_attempts ins batch s e a success st = upload_attempts ins batch s e a True ?st1"
        using c True by (subst upload_attempts.simps) simp
      with "1.prems" have r: "upload_attempts ins batch s e a True ?st1 = (ok, st')"
        by simp
      from "1.IH"(1) [OF c True r] obtain L where
        L: "llog st' = llog ?st1 @ L" "set (attempted_batches L) \<subseteq> {s}" "failed_batches L = []"
           "stored st' = stored ?st1 @ []"
        by auto
      have "upload_attempts ins batch s e a True ?st1 = (True, ?st1)"
        by (subst upload_attempts.simps) simp
      with r have "ok" by simp
      with L c show ?thesis
        by (intro exI [of _ "UploadedBatch s e # L"]) auto
    next
      case False
      let ?st2 = "st\<lparr>inserts := Suc (inserts st),
                     llog := llog st @ [Retry (a + 1) s e, LSlept 2]\<rparr>"
      have "upload_attempts ins batch s e a success st
              = upload_attempts ins batch s e (a + 1) success ?st2"
        using c False by (subst upload_attempts.simps) simp
      with "1.prems" have r: "upload_attempts ins batch s e (a + 1) success ?st2 = (ok, st')"
        by simp
      from "1.IH"(2) [OF c False r] obtain L where
        L: "llog st' = llog ?st2 @ L" "set (attempted_batches L) \<subseteq> {s}" "failed_batches L = []"
           "stored st' = stored ?st2 @ (if ok \<and> \<not> success then batch else [])"
           "\<not> ok \<longrightarrow> attempted_batches L = replicate (3 - (a + 1)) s"
        by auto
      from c have "replicate (3 - a) s = s # replicate (3 - (a + 1)) s"
        by (cases "3 - a") auto
      with L show ?thesis
        by (intro exI [of _ "Retry (a + 1) s e # LSlept 2 # L"]) auto
    qed
  qed
qed

lemma batch_rest:
  assumes "start < length rows"
  shows "take (min (start + batch_size) (length rows) - start) (drop start rows)
           @ drop (start + batch_size) rows = drop start rows"
proof (cases "start + batch_size \<le> length rows")
  case True
  then have "min (start + batch_size) (length rows) - start = batch_size" by simp
  then show ?thesis
    using append_take_drop_id [of batch_size "drop start rows"] by (simp add: add.commute)
next
  case False
  then show ?thesis by simp
qed

lemma batch_prefix:
  assumes "start + batch_size \<le> s"
  shows "take batch_size (drop start rows)
           @ take (s - (start + batch_size)) (drop (start + batch_size) rows)
         = take (s - start) (drop start rows)"
proof -
  from assms have "s - start = batch_size + (s - (start + batch_size))" by simp
  then show ?thesis
    by (simp only: take_add) (simp add: add.commute)
qed

lemma upload_batches_effect:
  "upload_batches ins rows start st = st' \<Longrightarrow>
     \<exists>L. llog st' = llog st @ L
        \<and> (\<forall>x \<in> set (attempted_batches L). start \<le> x)
        \<and> (\<forall>x \<in> set (failed_batches L). start \<le> x)
        \<and> (failed_batches L = [] \<and> stored st' = stored st @ drop start rows
           \<or> (\<exists>s. failed_batches L = [s] \<and> (\<forall>x \<in> set (attempted_batches L). x \<le> s)
                  \<and> count_list (attempted_batches L) s = 3
                  \<and> s < length rows
                  \<and> stored st' = stored st @ take (s - start) (drop start rows)))"
proof (induction ins rows start st arbitrary: st' rule: upload_batches.induct)
  case (1 ins rows start st)
  show ?case
  proof (cases "start < length rows")
    case False
    then have "upload_batches ins rows start st = st" by (subst upload_batches.simps) simp
    with "1.prems" have "st' = st" by simp
    with False show ?thesis by (intro exI [of _ "[]"]) simp
  next
    case c: True
    let ?e = "min (start + batch_size) (length rows)"
    let ?b = "take (?e - start) (drop start rows)"
    obtain ok st1 where u: "upload_attempts ins ?b start ?e 0 False st = (ok, st1)"
      by (cases "upload_attempts ins ?b start ?e 0 False st") auto
    from upload_attempts_effect [OF u] obtain L1 where
      L1: "llog st1 = llog st @ L1" "set (attempted_batches L1) \<subseteq> {start}"
          "failed_batches L1 = []" "stored st1 = stored st @ (if ok then ?b else [])"
          "\<not> ok \<longrightarrow> attempted_batches L1 = [start, start, start]"
      by (auto simp: numeral_3_eq_3)
    show ?thesis
    proof (cases ok)
      case False
      with c u have "upload_batches ins rows start st
                       = st1\<lparr>llog := llog st1 @ [CouldNotUpload start ?e]\<rparr>"
        by (subst upload_batches.simps) (simp add: Let_def)
      with "1.prems" have "st' = st1\<lparr>llog := llog st1 @ [CouldNotUpload start ?e]\<rparr>"
        by simp
      with L1 False c show ?thesis
        by (intro exI [of _ "L1 @ [CouldNotUpload start ?e]"])
           (auto simp: attempted_batches_append failed_batches_append)
    next
      case True
      with c u have "upload_batches ins rows start st
                       = upload_batches ins rows (start + batch_size) st1"
        by (subst upload_batches.simps) (simp add: Let_def)
      with "1.prems" have r: "upload_batches ins rows (start + batch_size) st1 = st'"
        by simp
      have "\<not> \<not> ok" using True by simp
      from "1.IH" [OF c refl refl u [symmetric] this r] obtain L2 where
        L2: "llog st' = llog st1 @ L2"
            "\<forall>x \<in> set (attempted_batches L2). start + batch_size \<le> x"
            "\<forall>x \<in> set (failed_batches L2). start + batch_size \<le> x"
            "failed_batches L2 = [] \<and> stored st' = stored st1 @ drop (start + batch_size) rows
             \<or> (\<exists>s. failed_batches L2 = [s] \<and> (\<forall>x \<in> set (attempted_batches L2). x \<le> s)
                    \<and> count_list (attempted_batches L2) s = 3
                    \<and> s < length rows
                    \<and> stored st' = stored st1 @ take (s - (start + batch_size))
                                                     (drop (start + batch_size) rows))"
        by auto
      from L2(4) show ?thesis
      proof
        assume a: "failed_batches L2 = [] \<and> stored st' = stored st1 @ drop (start + batch_size) rows"
        with L1 True have "stored st' = stored st @ drop start rows"
          using batch_rest [OF c] by simp
        with a L1 L2 show ?thesis
          by (intro exI [of _ "L1 @ L2"])
             (auto simp: attempted_batches_append failed_batches_append)
      next
        assume "\<exists>s. failed_batches L2 = [s] \<and> (\<forall>x \<in> set (attempted_batches L2). x \<le> s)
                    \<and> count_list (attempted_batches L2) s = 3
                    \<and> s < length rows
                    \<and> stored st' = stored st1 @ take (s - (start + batch_size))
                                                     (drop (start + batch_size) rows)"
        then obtain s where s: "failed_batches L2 = [s]" "\<forall>x \<in> set (attempted_batches L2). x \<le> s"
            "count_list (attempted_batches L2) s = 3" "s < length rows"
            "stored st' = stored st1 @ take (s - (start + batch_size))
                                            (drop (start + batch_size) rows)"
          by auto
        with L2(3) have g: "start + batch_size \<le> s" by simp
        then have "start < s" by (simp add: batch_size_def)
        with L1(2) have "s \<notin> set (attempted_batches L1)" by auto
        then have z: "count_list (attempted_batches L1) s = 0" by (simp add: count_list_0_iff)
        from g s(4) have "stored st1 = stored st @ take batch_size (drop start rows)"
          using L1(4) True by (simp add: min_def)
        with s(5) have "stored st' = stored st @ take (s - start) (drop start rows)"
          using batch_prefix [OF g] by simp
        with g s z L1 L2 show ?thesis
          by (intro exI [of _ "L1 @ L2"])
             (auto simp: attempted_batches_append failed_batches_append)
      qed
    qed
  qed
qed

lemma load_data_effect:
  "\<exists>st L. load_data ins (StagedRows rows) = Inr st
     \<and> llog st = Uploading (length rows) # L @ [UploadCompleted]
     \<and> (failed_batches L = [] \<and> stored st = rows
        \<or> (\<exists>s. failed_batches L = [s] \<and> (\<forall>x \<in> set (attempted_batches L). x \<le> s)
               \<and> count_list (attempted_batches L) s = 3
               \<and> s < length rows \<and> stored st = take s rows))"
proof -
  let ?st0 = "\<lparr>inserts = 0, stored = [], llog = [Uploading (length rows)]\<rparr>"
  from upload_batches_effect [OF refl, of ins rows 0 ?st0] obtain L where
    L: "llog (upload_batches ins rows 0 ?st0) = Uploading (length rows) # L"
       "failed_batches L = [] \<and> stored (upload_batches ins rows 0 ?st0) = rows
        \<or> (\<exists>s. failed_batches L = [s] \<and> (\<forall>x \<in> set (attempted_batches L). x \<le> s)
               \<and> count_list (attempted_batches L) s = 3
               \<and> s < length rows
               \<and> stored (upload_batches ins rows 0 ?st0) = take s rows)"
    by auto
  then show ?thesis
    by (intro exI [of _ "(upload_batches ins rows 0 ?st0)
          \<lparr>llog := llog (upload_batches ins rows 0 ?st0) @ [UploadCompleted]\<rparr>"] exI [of _ L])
       (auto simp: load_data_def Let_def)
qed


lemma upload_attempts_refused:
  assumes "\<not> ins (inserts st) batch" "\<not> ins (inserts st + 1) batch"
    "\<not> ins (inserts st + 2) batch"
  shows "upload_attempts ins batch s e 0 False st =
           (False, st\<lparr>inserts := inserts st + 3,
                      llog := llog st @ [Retry 1 s e, LSlept 2, Retry 2 s e, LSlept 2,
                                         Retry 3 s e, LSlept 2]\<rparr>)"
  using assms by (simp add: upload_attempts.simps)

lemma upload_attempts_accepted:
  assumes "ins (inserts st) batch"
  shows "upload_attempts ins batch s e 0 False st =
           (True, st\<lparr>inserts := inserts st + 1, stored := stored st @ batch,
                     llog := llog st @ [UploadedBatch s e]\<rparr>)"
  using assms by (simp add: upload_attempts.simps)

lemma upload_batches_refused:
  assumes "start < length rows"
    and "\<not> ins (inserts st) (take (min (start + batch_size) (length rows) - start) (drop start rows))"
    and "\<not> ins (inserts st + 1) (take (min (start + batch_size) (length rows) - start) (drop start rows))"
    and "\<not> ins (inserts st + 2) (take (min (start + batch_size) (length rows) - start) (drop start rows))"
  shows "upload_batches ins rows start st =
           st\<lparr>inserts := inserts st + 3,
              llog := llog st @ [Retry 1 start (min (start + batch_size) (length rows)), LSlept 2,
                                 Retry 2 start (min (start + batch_size) (length rows)), LSlept 2,
                                 Retry 3 start (min (start + batch_size) (length rows)), LSlept 2,
                                 CouldNotUpload start (min (start + batch_size) (length rows))]\<rparr>"
  using assms
    upload_attempts_refused [of ins st
      "take (min (start + batch_size) (length rows) - start) (drop start rows)"
      start "min (start + batch_size) (length rows)"]
  by (subst upload_batches.simps) (simp add: Let_def)

lemma upload_batches_accepted:
  assumes "start < length rows"
    and "ins (inserts st) (take (min (start + batch_size) (length rows) - start) (drop start rows))"
  shows "upload_batches ins rows start st =
           upload_batches ins rows (start + batch_size)
             (st\<lparr>inserts := inserts st + 1,
                 stored := stored st
                   @ take (min (start + batch_size) (length rows) - start) (drop start rows),
                 llog := llog st @ [UploadedBatch start (min (start + batch_size) (length rows))]\<rparr>)"
  using assms
    upload_attempts_accepted [of ins st
      "take (min (start + batch_size) (length rows) - start) (drop start rows)"
      start "min (start + batch_size) (length rows)"]
  by (subst upload_batches.simps) (simp add: Let_def)

lemma first_batch_down_run:
  "load_data first_batch_down (StagedRows rows_201) =
     Inr \<lparr>inserts = 3, stored = [],
          llog = [Uploading 201, Retry 1 0 200, LSlept 2, Retry 2 0 200, LSlept 2,
                  Retry 3 0 200, LSlept 2, CouldNotUpload 0 200, UploadCompleted]\<rparr>"
  by (simp add: load_data_def upload_batches.simps upload_attempts.simps batch_size_def
      rows_201_def first_batch_down_def)

lemma second_batch_down_run:
  "load_data second_batch_down (StagedRows rows_401) =
     Inr \<lparr>inserts = 4, stored = replicate 200 0,
          llog = [Uploading 401, UploadedBatch 0 200, Retry 1 200 400, LSlept 2,
                  Retry 2 200 400, LSlept 2, Retry 3 200 400, LSlept 2,
                  CouldNotUpload 200 400, UploadCompleted]\<rparr>"
  by (simp add: load_data_def upload_batches.simps upload_attempts.simps batch_size_def
      rows_401_def second_batch_down_def)

text \<open>
  C2, as the code has it. The claim: after a batch has used its three attempts the loader
  still attempts every later batch. In the code the loop ends at the \<open>break\<close> that
  follows the third failed attempt. Below, the staged file has two batches and the store
  refuses the first three insert calls only: the batch at 0 fails, and the batch at 200,
  which the store would have accepted, is never attempted.
\<close>

theorem later_batch_not_attempted:
  "200 < length rows_201
   \<and> failed_batches (load_log first_batch_down (StagedRows rows_201)) = [0]
   \<and> attempted_batches (load_log first_batch_down (StagedRows rows_201)) = [0, 0, 0]
   \<and> 200 \<notin> set (attempted_batches (load_log first_batch_down (StagedRows rows_201)))
   \<and> first_batch_down 3 (drop 200 rows_201)"
  by (simp add: load_log_def first_batch_down_run) (simp add: rows_201_def first_batch_down_def)

text \<open>
  C2, amended. For every staged file and every behaviour of the store, \<open>load_data\<close>
  returns and at most one batch is given up. The batch given up was attempted exactly
  three times, no batch after it was attempted, and the batches before it stay uploaded:
  the rows stored are exactly the rows before it. When no batch is given up, all the rows
  are stored. The loop, from any batch on: when the store refuses the three calls made
  for the batch, the loop ends there, having logged the three retries, each followed by a
  sleep of 2 seconds, and the batch as not uploaded, and having stored nothing more; when
  the store accepts the first call, the batch is stored and the loop goes on with the next
  batch.
\<close>

theorem load_stops_at_failed_batch:
  "(\<exists>st. load_data ins (StagedRows rows) = Inr st)
   \<and> length (failed_batches (load_log ins (StagedRows rows))) \<le> 1
   \<and> (\<forall>s \<in> set (failed_batches (load_log ins (StagedRows rows))).
        s < length rows
        \<and> (\<forall>x \<in> set (attempted_batches (load_log ins (StagedRows rows))). x \<le> s)
        \<and> count_list (attempted_batches (load_log ins (StagedRows rows))) s = 3
        \<and> load_stored ins (StagedRows rows) = take s rows)
   \<and> (failed_batches (load_log ins (StagedRows rows)) = [] \<longrightarrow>
        load_stored ins (StagedRows rows) = rows)
   \<and> (start < length rows
        \<and> \<not> ins (inserts st) (take (min (start + batch_size) (length rows) - start) (drop start rows))
        \<and> \<not> ins (inserts st + 1) (take (min (start + batch_size) (length rows) - start) (drop start rows))
        \<and> \<not> ins (inserts st + 2) (take (min (start + batch_size) (length rows) - start) (drop start rows))
      \<longrightarrow> upload_batches ins rows start st =
            st\<lparr>inserts := inserts st + 3,
               llog := llog st @ [Retry 1 start (min (start + batch_size) (length rows)), LSlept 2,
                                  Retry 2 start (min (start + batch_size) (length rows)), LSlept 2,
                                  Retry 3 start (min (start + batch_size) (length rows)), LSlept 2,
                                  CouldNotUpload start (min (start + batch_size) (length rows))]\<rparr>)
   \<and> (start < length rows
        \<and> ins (inserts st) (take (min (start + batch_size) (length rows) - start) (drop start rows))
      \<longrightarrow> upload_batches ins rows start st =
            upload_batches ins rows (start + batch_size)
              (st\<lparr>inserts := inserts st + 1,
                  stored := stored st
                    @ take (min (start + batch_size) (length rows) - start) (drop start rows),
                  llog := llog st
                    @ [UploadedBatch start (min (start + batch_size) (length rows))]\<rparr>))"
proof -
  from load_data_effect [of ins rows] obtain st0 L where
    a: "load_data ins (StagedRows rows) = Inr st0"
       "llog st0 = Uploading (length rows) # L @ [UploadCompleted]"
       "failed_batches L = [] \<and> stored st0 = rows
        \<or> (\<exists>s. failed_batches L = [s] \<and> (\<forall>x \<in> set (attempted_batches L). x \<le> s)
               \<and> count_list (attempted_batches L) s = 3
               \<and> s < length rows \<and> stored st0 = take s rows)"
    by blast
  then have "load_log ins (StagedRows rows) = Uploading (length rows) # L @ [UploadCompleted]"
    and s: "load_stored ins (StagedRows rows) = stored st0"
    by (simp_all add: load_log_def load_stored_def)
  then have f: "failed_batches (load_log ins (StagedRows rows)) = failed_batches L"
    and t: "attempted_batches (load_log ins (StagedRows rows)) = attempted_batches L"
    by (simp_all add: failed_batches_append attempted_batches_append)
  have 1: "\<exists>st. load_data ins (StagedRows rows) = Inr st"
    using a(1) by blast
  have 2: "length (failed_batches (load_log ins (StagedRows rows))) \<le> 1"
    unfolding f using a(3) by auto
  have 3: "\<forall>s \<in> set (failed_batches (load_log ins (StagedRows rows))).
        s < length rows
        \<and> (\<forall>x \<in> set (attempted_batches (load_log ins (StagedRows rows))). x \<le> s)
        \<and> count_list (attempted_batches (load_log ins (StagedRows rows))) s = 3
        \<and> load_stored ins (StagedRows rows) = take s rows"
    unfolding f t s using a(3) by auto
  have 4: "failed_batches (load_log ins (StagedRows rows)) = [] \<longrightarrow>
        load_stored ins (StagedRows rows) = rows"
    unfolding f s using a(3) by auto
  from 1 2 3 4 show ?thesis
    using upload_batches_refused [of start rows ins st]
      upload_batches_accepted [of start rows ins st]
    by simp
qed

theorem load_stops_at_failed_batch_witness:
  "failed_batches (load_log second_batch_down (StagedRows rows_401)) = [200]
   \<and> 200 < length rows_401
   \<and> list_all (\<lambda>x. x \<le> 200) (attempted_batches (load_log second_batch_down (StagedRows rows_401)))
   \<and> 400 \<notin> set (attempted_batches (load_log second_batch_down (StagedRows rows_401)))
   \<and> count_list (attempted_batches (load_log second_batch_down (StagedRows rows_401))) 200 = 3
   \<and> load_stored second_batch_down (StagedRows rows_401) = take 200 rows_401
   \<and> take 200 rows_401 = replicate 200 0
   \<and> upload_batches second_batch_down rows_401 200
        \<lparr>inserts = 1, stored = replicate 200 0,
         llog = [Uploading 401, UploadedBatch 0 200]\<rparr>
      = \<lparr>inserts = 4, stored = replicate 200 0,
         llog = [Uploading 401, UploadedBatch 0 200, Retry 1 200 400, LSlept 2,
                 Retry 2 200 400, LSlept 2, Retry 3 200 400, LSlept 2,
                 CouldNotUpload 200 400]\<rparr>"
proof -
  let ?log = "load_log second_batch_down (StagedRows rows_401)"
  let ?st = "\<lparr>inserts = 1, stored = replicate 200 (0::nat),
              llog = [Uploading 401, UploadedBatch 0 200]\<rparr>"
  note t = load_stops_at_failed_batch [of second_batch_down rows_401 200 ?st]
  have f: "failed_batches ?log = [200]"
    by (simp add: load_log_def second_batch_down_run)
  then have m: "200 \<in> set (failed_batches ?log)"
    by simp
  from t have "\<forall>s \<in> set (failed_batches ?log).
        s < length rows_401
        \<and> (\<forall>x \<in> set (attempted_batches ?log). x \<le> s)
        \<and> count_list (attempted_batches ?log) s = 3
        \<and> load_stored second_batch_down (StagedRows rows_401) = take s rows_401"
    by blast
  with m have b: "200 < length rows_401"
      "\<forall>x \<in> set (attempted_batches ?log). x \<le> 200"
      "count_list (attempted_batches ?log) 200 = 3"
      "load_stored second_batch_down (StagedRows rows_401) = take 200 rows_401"
    by blast+
  from b(2) have n: "400 \<notin> set (attempted_batches ?log)"
    by auto
  have k: "take 200 rows_401 = replicate 200 0"
    by (simp add: rows_401_def)
  have h: "200 < length rows_401
        \<and> \<not> second_batch_down (inserts ?st)
              (take (min (200 + batch_size) (length rows_401) - 200) (drop 200 rows_401))
        \<and> \<not> second_batch_down (inserts ?st + 1)
              (take (min (200 + batch_size) (length rows_401) - 200) (drop 200 rows_401))
        \<and> \<not> second_batch_down (inserts ?st + 2)
              (take (min (200 + batch_size) (length rows_401) - 200) (drop 200 rows_401))"
    by (simp add: second_batch_down_def rows_401_def)
  from t have "200 < length rows_401
        \<and> \<not> second_batch_down (inserts ?st)
              (take (min (200 + batch_size) (length rows_401) - 200) (drop 200 rows_401))
        \<and> \<not> second_batch_down (inserts ?st + 1)
              (take (min (200 + batch_size) (length rows_401) - 200) (drop 200 rows_401))
        \<and> \<not> second_batch_down (inserts ?st + 2)
              (take (min (200 + batch_size) (length rows_401) - 200) (drop 200 rows_401))
      \<longrightarrow> upload_batches second_batch_down rows_401 200 ?st =
            ?st\<lparr>inserts := inserts ?st + 3,
               llog := llog ?st @ [Retry 1 200 (min (200 + batch_size) (length rows_401)), LSlept 2,
                                  Retry 2 200 (min (200 + batch_size) (length rows_401)), LSlept 2,
                                  Retry 3 200 (min (200 + batch_size) (length rows_401)), LSlept 2,
                                  CouldNotUpload 200 (min (200 + batch_size) (length rows_401))]\<rparr>"
    by blast
  with h have "upload_batches second_batch_down rows_401 200 ?st =
            ?st\<lparr>inserts := inserts ?st + 3,
               llog := llog ?st @ [Retry 1 200 (min (200 + batch_size) (length rows_401)), LSlept 2,
                                  Retry 2 200 (min (200 + batch_size) (length rows_401)), LSlept 2,
                                  Retry 3 200 (min (200 + batch_size) (length rows_401)), LSlept 2,
                                  CouldNotUpload 200 (min (200 + batch_size) (length rows_401))]\<rparr>"
    by blast
  then have u: "upload_batches second_batch_down rows_401 200 ?st
      = \<lparr>inserts = 4, stored = replicate 200 0,
         llog = [Uploading 401, UploadedBatch 0 200, Retry 1 200 400, LSlept 2,
                 Retry 2 200 400, LSlept 2, Retry 3 200 400, LSlept 2,
                 CouldNotUpload 200 400]\<rparr>"
    by (simp add: batch_size_def rows_401_def)
  from f b n k u show ?thesis
    by (simp add: list_all_iff)
qed

text \<open>
  C7, as the code has it. The claim: the run reports success exactly when every batch was
  uploaded, and returns a report of the uploaded rows and the failed batches. The last
  line of \<open>load_data\<close> prints the success message after the loop, whatever the loop did,
  so every run that reads the staged rows reports success; and the function returns
  nothing, so the result of the model is the state left behind and no report. In the run
  below the store refuses the first three calls: the only batch attempted is given up
  (the message that it could not be uploaded is logged), nothing is stored, and the
  message that follows it, the last of the log, is the success message.
\<close>

theorem failed_load_reports_success:
  "failed_batches (load_log first_batch_down (StagedRows rows_201)) = [0]
   \<and> load_stored first_batch_down (StagedRows rows_201) = []
   \<and> rows_201 \<noteq> []
   \<and> reports_success (load_log first_batch_down (StagedRows rows_201))
   \<and> load_log first_batch_down (StagedRows rows_201)
       = [Uploading 201, Retry 1 0 200, LSlept 2, Retry 2 0 200, LSlept 2,
          Retry 3 0 200, LSlept 2, CouldNotUpload 0 200, UploadCompleted]"
  by (simp add: load_log_def load_stored_def first_batch_down_run reports_success_def)
     (simp add: rows_201_def)
section \<open>Properties of the pipeline run\<close>

lemma run_step_Inr:
  "run_step clk n f st = Inr st' \<Longrightarrow>
     fst (f (outside st)) = Returns
     \<and> (\<exists>d. plog st' = plog st @ [Starting n, CompletedIn n d])"
  by (auto simp: run_step_def Let_def split: prod.splits stage_result.splits)

lemma run_step_Inl:
  "run_step clk n f st = Inl (h, st') \<Longrightarrow>
     (\<exists>e tb. h = PipelineStopped n \<and> fst (f (outside st)) = RaisesException e tb
        \<and> plog st' = plog st @ [Starting n, ErrorIn n e, Traceback tb])
     \<or> (\<exists>b. h = Uncaught b \<and> fst (f (outside st)) = RaisesOther b
        \<and> plog st' = plog st @ [Starting n])"
  by (auto simp: run_step_def Let_def split: prod.splits stage_result.splits)

lemma run_step_raises:
  "fst (f (outside st)) = RaisesException e tb \<Longrightarrow>
     run_step clk n f st =
       Inl (PipelineStopped n,
            st\<lparr>outside := snd (f (outside st)), time_reads := Suc (time_reads st),
               plog := plog st @ [Starting n, ErrorIn n e, Traceback tb]\<rparr>)"
  by (cases "f (outside st)") (simp add: run_step_def Let_def)

lemma main_Inr:
  assumes "main clk f1 f2 f3 f4 w = Inr st"
  shows "started_steps (plog st) = step_names"
proof -
  let ?st0 = "\<lparr>outside = w, time_reads = 0, plog = [Banner]\<rparr>"
  from assms obtain s1 s2 s3 s4 where
    r: "run_step clk ''Extract Step'' f1 ?st0 = Inr s1"
       "run_step clk ''Transform Step'' f2 s1 = Inr s2"
       "run_step clk ''Load Step (Supabase)'' f3 s2 = Inr s3"
       "run_step clk ''Analysis Step'' f4 s3 = Inr s4"
       "st = s4\<lparr>plog := plog s4 @ [PipelineFinished]\<rparr>"
    by (auto simp: main_def Let_def split: sum.splits)
  from run_step_Inr [OF r(1)] run_step_Inr [OF r(2)] run_step_Inr [OF r(3)]
    run_step_Inr [OF r(4)] r(5)
  show ?thesis by (auto simp: step_names_def)
qed

lemma main_Inl:
  assumes "main clk f1 f2 f3 f4 w = Inl (h, st)"
  shows "\<exists>k. k < 4
           \<and> started_steps (plog st) = take (Suc k) step_names
           \<and> PipelineFinished \<notin> set (plog st)
           \<and> \<not> elapsed_logged (step_names ! k) (plog st)
           \<and> ((\<exists>e tb. h = PipelineStopped (step_names ! k)
                  \<and> last (butlast (plog st)) = ErrorIn (step_names ! k) e
                  \<and> last (plog st) = Traceback tb)
              \<or> (\<exists>b. h = Uncaught b))"
proof -
  let ?st0 = "\<lparr>outside = w, time_reads = 0, plog = [Banner]\<rparr>"
  from assms consider
      (a) "run_step clk ''Extract Step'' f1 ?st0 = Inl (h, st)"
    | (b) s1 where "run_step clk ''Extract Step'' f1 ?st0 = Inr s1"
        "run_step clk ''Transform Step'' f2 s1 = Inl (h, st)"
    | (c) s1 s2 where "run_step clk ''Extract Step'' f1 ?st0 = Inr s1"
        "run_step clk ''Transform Step'' f2 s1 = Inr s2"
        "run_step clk ''Load Step (Supabase)'' f3 s2 = Inl (h, st)"
    | (d) s1 s2 s3 where "run_step clk ''Extract Step'' f1 ?st0 = Inr s1"
        "run_step clk ''Transform Step'' f2 s1 = Inr s2"
        "run_step clk ''Load Step (Supabase)'' f3 s2 = Inr s3"
        "run_step clk ''Analysis Step'' f4 s3 = Inl (h, st)"
    by (auto simp: main_def Let_def split: sum.splits)
  then show ?thesis
  proof cases
    case a
    from run_step_Inl [OF a] show ?thesis
      by (intro exI [of _ 0]) (auto simp: step_names_def)
  next
    case b
    from run_step_Inr [OF b(1)] obtain d1 where
      "plog s1 = [Banner, Starting ''Extract Step'', CompletedIn ''Extract Step'' d1]" by auto
    with run_step_Inl [OF b(2)] show ?thesis
      by (intro exI [of _ 1]) (auto simp: step_names_def)
  next
    case c
    from run_step_Inr [OF c(1)] run_step_Inr [OF c(2)] obtain d1 d2 where
      "plog s2 = [Banner, Starting ''Extract Step'', CompletedIn ''Extract Step'' d1,
                  Starting ''Transform Step'', CompletedIn ''Transform Step'' d2]" by auto
    with run_step_Inl [OF c(3)] show ?thesis
      by (intro exI [of _ 2]) (auto simp: step_names_def)
  next
    case d
    from run_step_Inr [OF d(1)] run_step_Inr [OF d(2)] run_step_Inr [OF d(3)]
    obtain d1 d2 d3 where
      "plog s3 = [Banner, Starting ''Extract Step'', CompletedIn ''Extract Step'' d1,
                  Starting ''Transform Step'', CompletedIn ''Transform Step'' d2,
                  Starting ''Load Step (Supabase)'', CompletedIn ''Load Step (Supabase)'' d3]"
      by auto
    with run_step_Inl [OF d(4)] show ?thesis
      by (intro exI [of _ 3]) (auto simp: step_names_def numeral_3_eq_3)
  qed
qed

lemma extract_boom_run:
  "main tick stage_boom stage_ok stage_ok stage_ok () =
     Inl (PipelineStopped ''Extract Step'',
          \<lparr>outside = (), time_reads = 1,
           plog = [Banner, Starting ''Extract Step'', ErrorIn ''Extract Step'' ''boom'',
                   Traceback ''Traceback (most recent call last): ...'']\<rparr>)"
  by (simp add: main_def run_step_def stage_boom_def)

lemma transform_boom_run:
  "main tick stage_ok stage_boom stage_ok stage_ok () =
     Inl (PipelineStopped ''Transform Step'',
          \<lparr>outside = (), time_reads = 3,
           plog = [Banner, Starting ''Extract Step'', CompletedIn ''Extract Step'' 1,
                   Starting ''Transform Step'', ErrorIn ''Transform Step'' ''boom'',
                   Traceback ''Traceback (most recent call last): ...'']\<rparr>)"
  by (simp add: main_def run_step_def stage_boom_def stage_ok_def tick_def)

text \<open>
  C8, as the code has it. The claim: when a stage raises, the orchestrator logs the
  stage's name, its elapsed time and the stack context. In \<open>run_step\<close> the end time
  is read and the elapsed time printed only when the stage returns; the \<open>except\<close>
  branch prints the name with the message, and the traceback. Below, the extraction
  raises: the clock was read once, and the log holds no elapsed time for the stage.
\<close>

theorem failed_stage_logs_no_elapsed_time:
  "main tick stage_boom stage_ok stage_ok stage_ok () =
     Inl (PipelineStopped ''Extract Step'',
          \<lparr>outside = (), time_reads = 1,
           plog = [Banner, Starting ''Extract Step'', ErrorIn ''Extract Step'' ''boom'',
                   Traceback ''Traceback (most recent call last): ...'']\<rparr>)
   \<and> \<not> elapsed_logged ''Extract Step''
         [Banner, Starting ''Extract Step'', ErrorIn ''Extract Step'' ''boom'',
          Traceback ''Traceback (most recent call last): ...'']"
  by (simp add: extract_boom_run)

lemma main_stops_1:
  assumes "fst (f1 w) = RaisesException e tb"
  shows "main clk f1 f2 f3 f4 w =
       Inl (PipelineStopped ''Extract Step'',
            \<lparr>outside = snd (f1 w), time_reads = 1,
             plog = [Banner,
                     Starting ''Extract Step'',
                     ErrorIn ''Extract Step'' e,
                     Traceback tb]\<rparr>)"
  using assms
  by (cases "f1 w") (simp add: main_def run_step_def Let_def eval_nat_numeral)

lemma main_stops_2:
  assumes "fst (f1 w) = Returns" "fst (f2 (snd (f1 w))) = RaisesException e tb"
  shows "main clk f1 f2 f3 f4 w =
       Inl (PipelineStopped ''Transform Step'',
            \<lparr>outside = snd (f2 (snd (f1 w))), time_reads = 3,
             plog = [Banner,
                     Starting ''Extract Step'',
                     CompletedIn ''Extract Step'' (clk 1 - clk 0),
                     Starting ''Transform Step'',
                     ErrorIn ''Transform Step'' e,
                     Traceback tb]\<rparr>)"
  using assms
  by (cases "f1 w"; cases "f2 (snd (f1 w))") (simp add: main_def run_step_def Let_def eval_nat_numeral)

lemma main_stops_3:
  assumes "fst (f1 w) = Returns" "fst (f2 (snd (f1 w))) = Returns" "fst (f3 (snd (f2 (snd (f1 w))))) = RaisesException e tb"
  shows "main clk f1 f2 f3 f4 w =
       Inl (PipelineStopped ''Load Step (Supabase)'',
            \<lparr>outside = snd (f3 (snd (f2 (snd (f1 w))))), time_reads = 5,
             plog = [Banner,
                     Starting ''Extract Step'',
                     CompletedIn ''Extract Step'' (clk 1 - clk 0),
                     Starting ''Transform Step'',
                     CompletedIn ''Transform Step'' (clk 3 - clk 2),
                     Starting ''Load Step (Supabase)'',
                     ErrorIn ''Load Step (Supabase)'' e,
                     Traceback tb]\<rparr>)"
  using assms
  by (cases "f1 w"; cases "f2 (snd (f1 w))"; cases "f3 (snd (f2 (snd (f1 w))))")
     (simp add: main_def run_step_def Let_def eval_nat_numeral)

lemma main_stops_4:
  assumes "fst (f1 w) = Returns" "fst (f2 (snd (f1 w))) = Returns" "fst (f3 (snd (f2 (snd (f1 w))))) = Returns" "fst (f4 (snd (f3 (snd (f2 (snd (f1 w))))))) = RaisesException e tb"
  shows "main clk f1 f2 f3 f4 w =
       Inl (PipelineStopped ''Analysis Step'',
            \<lparr>outside = snd (f4 (snd (f3 (snd (f2 (snd (f1 w))))))), time_reads = 7,
             plog = [Banner,
                     Starting ''Extract Step'',
                     CompletedIn ''Extract Step'' (clk 1 - clk 0),
                     Starting ''Transform Step'',
                     CompletedIn ''Transform Step'' (clk 3 - clk 2),
                     Starting ''Load Step (Supabase)'',
                     CompletedIn ''Load Step (Supabase)'' (clk 5 - clk 4),
                     Starting ''Analysis Step'',
                     ErrorIn ''Analysis Step'' e,
                     Traceback tb]\<rparr>)"
  using assms
  by (cases "f1 w"; cases "f2 (snd (f1 w))"; cases "f3 (snd (f2 (snd (f1 w))))";
      cases "f4 (snd (f3 (snd (f2 (snd (f1 w))))))")
     (simp add: main_def run_step_def Let_def eval_nat_numeral)

lemma main_finishes:
  assumes "fst (f1 w) = Returns" "fst (f2 (snd (f1 w))) = Returns" "fst (f3 (snd (f2 (snd (f1 w))))) = Returns" "fst (f4 (snd (f3 (snd (f2 (snd (f1 w))))))) = Returns"
  shows "main clk f1 f2 f3 f4 w =
       Inr \<lparr>outside = snd (f4 (snd (f3 (snd (f2 (snd (f1 w))))))), time_reads = 8,
            plog = [Banner,
                    Starting ''Extract Step'',
                    CompletedIn ''Extract Step'' (clk 1 - clk 0),
                    Starting ''Transform Step'',
                    CompletedIn ''Transform Step'' (clk 3 - clk 2),
                    Starting ''Load Step (Supabase)'',
                    CompletedIn ''Load Step (Supabase)'' (clk 5 - clk 4),
                    Starting ''Analysis Step'',
                    CompletedIn ''Analysis Step'' (clk 7 - clk 6),
                    PipelineFinished]\<rparr>"
  using assms
  by (cases "f1 w"; cases "f2 (snd (f1 w))"; cases "f3 (snd (f2 (snd (f1 w))))";
      cases "f4 (snd (f3 (snd (f2 (snd (f1 w))))))")
     (simp add: main_def run_step_def Let_def eval_nat_numeral)

text \<open>
  C8, amended. In every run the stages start in the order Extract, Transform, Load,
  Analysis, each after the one before it has returned; a run that returns has started
  all four. A stage that raises an exception makes \<open>run_step\<close> log the stage's name
  with the message, then the traceback, and raise \<open>SystemExit\<close> naming the stage,
  without a second reading of the clock. A run so stopped ends its log with these two
  entries, the stopped stage is the last one started, no elapsed time is logged for it,
  and the run does not reach its last line. The run is halted, for each of the four
  stages: when the stages before it return and it raises, \<open>main\<close> ends with the
  \<open>SystemExit\<close> naming it, the outside is as that stage left it (no later stage has
  acted on it), the clock has been read twice for each stage that returned and once for
  the one that raised, and the log is exactly: the banner, the start and the elapsed time
  of each stage that returned, and the start, the error and the traceback of the one that
  raised. When the four stages return, the run returns with the outside as the fourth
  stage left it, and its log ends with the line of the finished pipeline.
\<close>

theorem pipeline_order_and_halt:
  "(\<exists>k. k \<le> 4 \<and> started_steps (plog (final_state (main clk f1 f2 f3 f4 w))) = take k step_names)
   \<and> (\<forall>st. main clk f1 f2 f3 f4 w = Inr st \<longrightarrow> started_steps (plog st) = step_names)
   \<and> (\<forall>n st. main clk f1 f2 f3 f4 w = Inl (PipelineStopped n, st) \<longrightarrow>
         n \<in> set step_names
         \<and> (\<exists>e tb. last (butlast (plog st)) = ErrorIn n e \<and> last (plog st) = Traceback tb)
         \<and> last (started_steps (plog st)) = n
         \<and> PipelineFinished \<notin> set (plog st)
         \<and> \<not> elapsed_logged n (plog st))
   \<and> (\<forall>e tb (s :: 'w pstate). fst (f (outside s)) = RaisesException e tb \<longrightarrow>
         run_step clk nm f s =
           Inl (PipelineStopped nm,
                s\<lparr>outside := snd (f (outside s)), time_reads := Suc (time_reads s),
                  plog := plog s @ [Starting nm, ErrorIn nm e, Traceback tb]\<rparr>))
   \<and> (fst (f1 w) = RaisesException e tb \<longrightarrow>
     main clk f1 f2 f3 f4 w =
       Inl (PipelineStopped ''Extract Step'',
            \<lparr>outside = snd (f1 w), time_reads = 1,
             plog = [Banner,
                     Starting ''Extract Step'',
                     ErrorIn ''Extract Step'' e,
                     Traceback tb]\<rparr>))
   \<and> (fst (f1 w) = Returns
      \<and> fst (f2 (snd (f1 w))) = RaisesException e tb \<longrightarrow>
     main clk f1 f2 f3 f4 w =
       Inl (PipelineStopped ''Transform Step'',
            \<lparr>outside = snd (f2 (snd (f1 w))), time_reads = 3,
             plog = [Banner,
                     Starting ''Extract Step'',
                     CompletedIn ''Extract Step'' (clk 1 - clk 0),
                     Starting ''Transform Step'',
                     ErrorIn ''Transform Step'' e,
                     Traceback tb]\<rparr>))
   \<and> (fst (f1 w) = Returns
      \<and> fst (f2 (snd (f1 w))) = Returns
      \<and> fst (f3 (snd (f2 (snd (f1 w))))) = RaisesException e tb \<longrightarrow>
     main clk f1 f2 f3 f4 w =
       Inl (PipelineStopped ''Load Step (Supabase)'',
            \<lparr>outside = snd (f3 (snd (f2 (snd (f1 w))))), time_reads = 5,
             plog = [Banner,
                     Starting ''Extract Step'',
                     CompletedIn ''Extract Step'' (clk 1 - clk 0),
                     Starting ''Transform Step'',
                     CompletedIn ''Transform Step'' (clk 3 - clk 2),
                     Starting ''Load Step (Supabase)'',
                     ErrorIn ''Load Step (Supabase)'' e,
                     Traceback tb]\<rparr>))
   \<and> (fst (f1 w) = Returns
      \<and> fst (f2 (snd (f1 w))) = Returns
      \<and> fst (f3 (snd (f2 (snd (f1 w))))) = Returns
      \<and> fst (f4 (snd (f3 (snd (f2 (snd (f1 w))))))) = RaisesException e tb \<longrightarrow>
     main clk f1 f2 f3 f4 w =
       Inl (PipelineStopped ''Analysis Step'',
            \<lparr>outside = snd (f4 (snd (f3 (snd (f2 (snd (f1 w))))))), time_reads = 7,
             plog = [Banner,
                     Starting ''Extract Step'',
                     CompletedIn ''Extract Step'' (clk 1 - clk 0),
                     Starting ''Transform Step'',
                     CompletedIn ''Transform Step'' (clk 3 - clk 2),
                     Starting ''Load Step (Supabase)'',
                     CompletedIn ''Load Step (Supabase)'' (clk 5 - clk 4),
                     Starting ''Analysis Step'',
                     ErrorIn ''Analysis Step'' e,
                     Traceback tb]\<rparr>))
   \<and> (fst (f1 w) = Returns
      \<and> fst (f2 (snd (f1 w))) = Returns
      \<and> fst (f3 (snd (f2 (snd (f1 w))))) = Returns
      \<and> fst (f4 (snd (f3 (snd (f2 (snd (f1 w))))))) = Returns \<longrightarrow>
     main clk f1 f2 f3 f4 w =
       Inr \<lparr>outside = snd (f4 (snd (f3 (snd (f2 (snd (f1 w))))))), time_reads = 8,
            plog = [Banner,
                    Starting ''Extract Step'',
                    CompletedIn ''Extract Step'' (clk 1 - clk 0),
                    Starting ''Transform Step'',
                    CompletedIn ''Transform Step'' (clk 3 - clk 2),
                    Starting ''Load Step (Supabase)'',
                    CompletedIn ''Load Step (Supabase)'' (clk 5 - clk 4),
                    Starting ''Analysis Step'',
                    CompletedIn ''Analysis Step'' (clk 7 - clk 6),
                    PipelineFinished]\<rparr>)"
proof -
  have c1: "\<exists>k. k \<le> 4 \<and> started_steps (plog (final_state (main clk f1 f2 f3 f4 w))) = take k step_names"
  proof (cases "main clk f1 f2 f3 f4 w")
    case (Inr st)
    with main_Inr [OF Inr] show ?thesis
      by (intro exI [of _ 4]) (simp add: final_state_def step_names_def)
  next
    case (Inl p)
    obtain h st where p: "p = (h, st)" by (cases p)
    with Inl main_Inl [of clk f1 f2 f3 f4 w h st] obtain k where
      "k < 4" "started_steps (plog st) = take (Suc k) step_names" by auto
    with Inl p show ?thesis
      by (intro exI [of _ "Suc k"]) (simp add: final_state_def)
  qed
  have c2: "\<forall>st. main clk f1 f2 f3 f4 w = Inr st \<longrightarrow> started_steps (plog st) = step_names"
    using main_Inr [of clk f1 f2 f3 f4 w] by blast
  have c3: "\<forall>n st. main clk f1 f2 f3 f4 w = Inl (PipelineStopped n, st) \<longrightarrow>
         n \<in> set step_names
         \<and> (\<exists>e tb. last (butlast (plog st)) = ErrorIn n e \<and> last (plog st) = Traceback tb)
         \<and> last (started_steps (plog st)) = n
         \<and> PipelineFinished \<notin> set (plog st)
         \<and> \<not> elapsed_logged n (plog st)"
  proof (intro allI impI)
    fix n st assume m: "main clk f1 f2 f3 f4 w = Inl (PipelineStopped n, st)"
    from main_Inl [OF m] obtain k e tb where
      k: "k < 4" "started_steps (plog st) = take (Suc k) step_names"
         "PipelineFinished \<notin> set (plog st)" "\<not> elapsed_logged (step_names ! k) (plog st)"
         "n = step_names ! k" "last (butlast (plog st)) = ErrorIn (step_names ! k) e"
         "last (plog st) = Traceback tb"
      by auto
    from k(1) have l: "k < length step_names" by (simp add: step_names_def)
    from k(5) l have 1: "n \<in> set step_names" by simp
    from k(5,6,7) have 2: "\<exists>e tb. last (butlast (plog st)) = ErrorIn n e \<and> last (plog st) = Traceback tb"
      by auto
    from k(2,5) l have 3: "last (started_steps (plog st)) = n"
      by (simp add: take_Suc_conv_app_nth)
    from k(4,5) have 4: "\<not> elapsed_logged n (plog st)" by simp
    from 1 2 3 k(3) 4 show "n \<in> set step_names
         \<and> (\<exists>e tb. last (butlast (plog st)) = ErrorIn n e \<and> last (plog st) = Traceback tb)
         \<and> last (started_steps (plog st)) = n
         \<and> PipelineFinished \<notin> set (plog st)
         \<and> \<not> elapsed_logged n (plog st)"
      by (intro conjI)
  qed
  have c4: "\<forall>e tb (s :: 'w pstate). fst (f (outside s)) = RaisesException e tb \<longrightarrow>
         run_step clk nm f s =
           Inl (PipelineStopped nm,
                s\<lparr>outside := snd (f (outside s)), time_reads := Suc (time_reads s),
                  plog := plog s @ [Starting nm, ErrorIn nm e, Traceback tb]\<rparr>)"
    using run_step_raises [of f _ _ _ clk nm] by blast
  have s1: "fst (f1 w) = RaisesException e tb \<longrightarrow>
     main clk f1 f2 f3 f4 w =
       Inl (PipelineStopped ''Extract Step'',
            \<lparr>outside = snd (f1 w), time_reads = 1,
             plog = [Banner,
                     Starting ''Extract Step'',
                     ErrorIn ''Extract Step'' e,
                     Traceback tb]\<rparr>)"
    using main_stops_1 [of f1 w e tb clk f2 f3 f4] by (intro impI) simp
  have s2: "fst (f1 w) = Returns
      \<and> fst (f2 (snd (f1 w))) = RaisesException e tb \<longrightarrow>
     main clk f1 f2 f3 f4 w =
       Inl (PipelineStopped ''Transform Step'',
            \<lparr>outside = snd (f2 (snd (f1 w))), time_reads = 3,
             plog = [Banner,
                     Starting ''Extract Step'',
                     CompletedIn ''Extract Step'' (clk 1 - clk 0),
                     Starting ''Transform Step'',
                     ErrorIn ''Transform Step'' e,
                     Traceback tb]\<rparr>)"
    using main_stops_2 [of f1 w f2 e tb clk f3 f4] by (intro impI) simp
  have s3: "fst (f1 w) = Returns
      \<and> fst (f2 (snd (f1 w))) = Returns
      \<and> fst (f3 (snd (f2 (snd (f1 w))))) = RaisesException e tb \<longrightarrow>
     main clk f1 f2 f3 f4 w =
       Inl (PipelineStopped ''Load Step (Supabase)'',
            \<lparr>outside = snd (f3 (snd (f2 (snd (f1 w))))), time_reads = 5,
             plog = [Banner,
                     Starting ''Extract Step'',
                     CompletedIn ''Extract Step'' (clk 1 - clk 0),
                     Starting ''Transform Step'',
                     CompletedIn ''Transform Step'' (clk 3 - clk 2),
                     Starting ''Load Step (Supabase)'',
                     ErrorIn ''Load Step (Supabase)'' e,
                     Traceback tb]\<rparr>)"
    using main_stops_3 [of f1 w f2 f3 e tb clk f4] by (intro impI) simp
  have s4: "fst (f1 w) = Returns
      \<and> fst (f2 (snd (f1 w))) = Returns
      \<and> fst (f3 (snd (f2 (snd (f1 w))))) = Returns
      \<and> fst (f4 (snd (f3 (snd (f2 (snd (f1 w))))))) = RaisesException e tb \<longrightarrow>
     main clk f1 f2 f3 f4 w =
       Inl (PipelineStopped ''Analysis Step'',
            \<lparr>outside = snd (f4 (snd (f3 (snd (f2 (snd (f1 w))))))), time_reads = 7,
             plog = [Banner,
                     Starting ''Extract Step'',
                     CompletedIn ''Extract Step'' (clk 1 - clk 0),
                     Starting ''Transform Step'',
                     CompletedIn ''Transform Step'' (clk 3 - clk 2),
                     Starting ''Load Step (Supabase)'',
                     CompletedIn ''Load Step (Supabase)'' (clk 5 - clk 4),
                     Starting ''Analysis Step'',
                     ErrorIn ''Analysis Step'' e,
                     Traceback tb]\<rparr>)"
    using main_stops_4 [of f1 w f2 f3 f4 e tb clk] by (intro impI) simp
  have s5: "fst (f1 w) = Returns
      \<and> fst (f2 (snd (f1 w))) = Returns
      \<and> fst (f3 (snd (f2 (snd (f1 w))))) = Returns
      \<and> fst (f4 (snd (f3 (snd (f2 (snd (f1 w))))))) = Returns \<longrightarrow>
     main clk f1 f2 f3 f4 w =
       Inr \<lparr>outside = snd (f4 (snd (f3 (snd (f2 (snd (f1 w))))))), time_reads = 8,
            plog = [Banner,
                    Starting ''Extract Step'',
                    CompletedIn ''Extract Step'' (clk 1 - clk 0),
                    Starting ''Transform Step'',
                    CompletedIn ''Transform Step'' (clk 3 - clk 2),
                    Starting ''Load Step (Supabase)'',
                    CompletedIn ''Load Step (Supabase)'' (clk 5 - clk 4),
                    Starting ''Analysis Step'',
                    CompletedIn ''Analysis Step'' (clk 7 - clk 6),
                    PipelineFinished]\<rparr>"
    using main_finishes [of f1 w f2 f3 f4 clk] by (intro impI) simp
  show ?thesis
    by (intro conjI) (fact c1, fact c2, fact c3, fact c4, fact s1, fact s2, fact s3, fact s4, fact s5)
qed

theorem pipeline_order_and_halt_witness:
  "main tick (stage_mark 1) (stage_fail 2) (stage_mark 3) (stage_mark 4) [] =
     Inl (PipelineStopped ''Transform Step'',
          \<lparr>outside = [1, 2], time_reads = 3,
           plog = [Banner, Starting ''Extract Step'', CompletedIn ''Extract Step'' 1,
                   Starting ''Transform Step'', ErrorIn ''Transform Step'' ''boom'',
                   Traceback ''Traceback (most recent call last): ...'']\<rparr>)
   \<and> last (started_steps (plog (final_state
        (main tick (stage_mark 1) (stage_fail 2) (stage_mark 3) (stage_mark 4) []))))
     = ''Transform Step''
   \<and> \<not> elapsed_logged ''Transform Step'' (plog (final_state
        (main tick (stage_mark 1) (stage_fail 2) (stage_mark 3) (stage_mark 4) [])))
   \<and> PipelineFinished \<notin> set (plog (final_state
        (main tick (stage_mark 1) (stage_fail 2) (stage_mark 3) (stage_mark 4) [])))
   \<and> main tick (stage_mark 1) (stage_mark 2) (stage_mark 3) (stage_mark 4) [] =
     Inr \<lparr>outside = [1, 2, 3, 4], time_reads = 8,
          plog = [Banner, Starting ''Extract Step'', CompletedIn ''Extract Step'' 1,
                  Starting ''Transform Step'', CompletedIn ''Transform Step'' 1,
                  Starting ''Load Step (Supabase)'', CompletedIn ''Load Step (Supabase)'' 1,
                  Starting ''Analysis Step'', CompletedIn ''Analysis Step'' 1,
                  PipelineFinished]\<rparr>"
proof -
  let ?m = "main tick (stage_mark 1) (stage_fail 2) (stage_mark 3) (stage_mark 4) []"
  let ?st = "\<lparr>outside = [1, 2 :: nat], time_reads = 3,
           plog = [Banner, Starting ''Extract Step'', CompletedIn ''Extract Step'' 1,
                   Starting ''Transform Step'', ErrorIn ''Transform Step'' ''boom'',
                   Traceback ''Traceback (most recent call last): ...'']\<rparr>"
  note t = pipeline_order_and_halt [where clk = tick and ?f1.0 = "stage_mark 1"
      and ?f2.0 = "stage_fail 2" and ?f3.0 = "stage_mark 3" and ?f4.0 = "stage_mark 4"
      and w = "[]" and e = "''boom''" and tb = "''Traceback (most recent call last): ...''"
      and f = "stage_mark 1" and nm = "''Extract Step''"]
  note u = pipeline_order_and_halt [where clk = tick and ?f1.0 = "stage_mark 1"
      and ?f2.0 = "stage_mark 2" and ?f3.0 = "stage_mark 3" and ?f4.0 = "stage_mark 4"
      and w = "[]" and e = "''boom''" and tb = "''Traceback (most recent call last): ...''"
      and f = "stage_mark 1" and nm = "''Extract Step''"]
  have m: "?m = Inl (PipelineStopped ''Transform Step'', ?st)"
    using t by (simp add: stage_mark_def stage_fail_def tick_def)
  then have f: "final_state ?m = ?st"
    by (simp add: final_state_def)
  from t have "\<forall>n st. ?m = Inl (PipelineStopped n, st) \<longrightarrow>
         n \<in> set step_names
         \<and> (\<exists>e tb. last (butlast (plog st)) = ErrorIn n e \<and> last (plog st) = Traceback tb)
         \<and> last (started_steps (plog st)) = n
         \<and> PipelineFinished \<notin> set (plog st)
         \<and> \<not> elapsed_logged n (plog st)"
    by (elim conjE)
  with m have r: "last (started_steps (plog ?st)) = ''Transform Step''
         \<and> PipelineFinished \<notin> set (plog ?st)
         \<and> \<not> elapsed_logged ''Transform Step'' (plog ?st)"
    by fast
  have n: "main tick (stage_mark 1) (stage_mark 2) (stage_mark 3) (stage_mark 4) [] =
     Inr \<lparr>outside = [1, 2, 3, 4], time_reads = 8,
          plog = [Banner, Starting ''Extract Step'', CompletedIn ''Extract Step'' 1,
                  Starting ''Transform Step'', CompletedIn ''Transform Step'' 1,
                  Starting ''Load Step (Supabase)'', CompletedIn ''Load Step (Supabase)'' 1,
                  Starting ''Analysis Step'', CompletedIn ''Analysis Step'' 1,
                  PipelineFinished]\<rparr>"
    using u by (simp add: stage_mark_def tick_def)
  from m r n show ?thesis
    unfolding f by (intro conjI) simp_all
qed
section \<open>Properties of the analysis\<close>

lemma run_analysis_rows_without_columns:
  "list_all (\<lambda>r. r = []) d \<Longrightarrow>
     run_analysis convert compute_kpis export_trends make_plots (QueryData (Some d))
       = Inr \<lparr>alog = [NoDataFound], processed = []\<rparr>"
  by (auto simp: run_analysis_def fetch_table_as_df_def df_empty_def list_all_iff)

text \<open>
  C9, as the code has it. The claim: on a store without rows the analysis yields a summary
  whose fields are all absent, with an empty distribution and an empty trend table. The
  code prints its message and returns before anything is computed or saved: the run
  below yields no artifact at all.
\<close>

theorem no_data_yields_no_summary:
  "run_analysis (\<lambda>k v. v) (\<lambda>df. Inr (null_summary, [])) (\<lambda>df. Inr []) (\<lambda>df. Inr [])
       (QueryData (Some ([] :: nat dict list)))
     = Inr \<lparr>alog = [NoDataFound], processed = ([] :: (nat, nat) artifact list)\<rparr>
   \<and> \<not> yields_null_summary \<lparr>alog = [NoDataFound], processed = ([] :: (nat, nat) artifact list)\<rparr>"
  by (simp add: run_analysis_def fetch_table_as_df_def df_empty_def yields_null_summary_def)

text \<open>
  C9, amended. When the query returns no data or no row, the analysis does not raise: it
  prints the "no data" message and returns at once, and no summary, distribution, trend
  table or plot is computed or saved.
\<close>

theorem run_analysis_no_data:
  "res = QueryData None \<or> res = QueryData (Some []) \<Longrightarrow>
     run_analysis convert compute_kpis export_trends make_plots res
       = Inr \<lparr>alog = [NoDataFound], processed = []\<rparr>"
  by (auto simp: run_analysis_def fetch_table_as_df_def df_empty_def)

theorem run_analysis_no_data_witness:
  "run_analysis (\<lambda>k v. v) (\<lambda>df. Inr (null_summary, [])) (\<lambda>df. Inr []) (\<lambda>df. Inr [])
       (QueryData (Some ([] :: nat dict list)))
     = Inr \<lparr>alog = [NoDataFound], processed = ([] :: (nat, nat) artifact list)\<rparr>"
  using run_analysis_no_data [of "QueryData (Some [])"] by simp

section \<open>Properties of the extraction\<close>

lemma sleeps_after_failures_append:
  "sleeps_after_failures xs \<Longrightarrow> sleeps_after_failures ys \<Longrightarrow> sleeps_after_failures (xs @ ys)"
proof (induction xs rule: sleeps_after_failures.induct)
  case 1
  then show ?case by simp
next
  case (2 e)
  then show ?case by (cases ys) simp_all
next
  case (3 e e' es)
  then show ?case by simp
qed

lemma fetched_cities_append:
  "fetched_cities (xs @ ys) = fetched_cities xs @ fetched_cities ys"
  by (induction xs rule: fetched_cities.induct) simp_all

lemma fetch_attempts_requests:
  "fetch_attempts get mr url cty as st = (r, st') \<Longrightarrow>
     requests st \<le> requests st' \<and> requests st' \<le> requests st + length as
     \<and> clock_reads st' = clock_reads st \<and> written st' = written st"
proof (induction as arbitrary: st)
  case Nil
  then show ?case by simp
next
  case (Cons a as)
  then show ?case
    by (fastforce simp: Let_def split: http_result.splits json_result.splits if_splits)
qed

lemma fetch_attempts_sleeps:
  "fetch_attempts get mr url cty as st = (r, st') \<Longrightarrow> sleeps_after_failures (xlog st) \<Longrightarrow>
     sleeps_after_failures (xlog st')"
proof (induction as arbitrary: st)
  case Nil
  then show ?case by simp
next
  case (Cons a as)
  let ?st1 = "st\<lparr>requests := Suc (requests st), xlog := xlog st @ [Fetching cty a mr]\<rparr>"
  have s1: "sleeps_after_failures (xlog ?st1)"
    using Cons.prems(2) by (simp add: sleeps_after_failures_append)
  have f1: "sleeps_after_failures (xlog ?st1 @ [RequestFailed cty, Slept 1])"
    using s1 by (intro sleeps_after_failures_append) simp_all
  have f2: "\<And>c. sleeps_after_failures (xlog ?st1 @ [ApiError c cty, Slept 1])"
    using s1 by (intro sleeps_after_failures_append) simp_all
  from Cons.prems(1) show ?case
    using Cons.IH s1 f1 f2
    by (auto simp: Let_def split: http_result.splits json_result.splits if_splits)
qed

lemma fetch_attempts_cities:
  "fetch_attempts get mr url cty as st = (r, st') \<Longrightarrow>
     (1 \<notin> set as \<longrightarrow> fetched_cities (xlog st') = fetched_cities (xlog st))
     \<and> (\<forall>as'. as = 1 # as' \<and> 1 \<notin> set as' \<longrightarrow>
           fetched_cities (xlog st') = fetched_cities (xlog st) @ [cty])"
proof (induction as arbitrary: st)
  case Nil
  then show ?case by simp
next
  case (Cons a as)
  from Cons.prems show ?case
    using Cons.IH
    by (auto simp: Let_def fetched_cities_append
             split: http_result.splits json_result.splits if_splits)
qed

lemma upto_1:
  "length [1..mr] = nat mr" "1 \<le> mr \<Longrightarrow> [1..mr] = 1 # [2..mr]" "1 \<notin> set [2..mr]"
  by (simp_all add: upto_rec1)

lemma fetch_with_retry_effect:
  assumes "fetch_with_retry get mr url cty st = (r, st')"
  shows "requests st \<le> requests st'" "requests st' \<le> requests st + nat mr"
    "clock_reads st' = clock_reads st" "written st' = written st"
    "sleeps_after_failures (xlog st) \<Longrightarrow> sleeps_after_failures (xlog st')"
    "1 \<le> mr \<Longrightarrow> fetched_cities (xlog st') = fetched_cities (xlog st) @ [cty]"
proof -
  obtain r0 st0 where a: "fetch_attempts get mr url cty [1..mr] st = (r0, st0)"
    by (cases "fetch_attempts get mr url cty [1..mr] st") auto
  with assms have st': "st' = st0 \<or> st' = st0\<lparr>xlog := xlog st0 @ [FetchFailed cty mr]\<rparr>"
    by (auto simp: fetch_with_retry_def split: option.splits)
  from fetch_attempts_requests [OF a] st'
  show "requests st \<le> requests st'" "requests st' \<le> requests st + nat mr"
    "clock_reads st' = clock_reads st" "written st' = written st"
    by (auto simp: upto_1)
  { assume "sleeps_after_failures (xlog st)"
    from fetch_attempts_sleeps [OF a this] st'
    show "sleeps_after_failures (xlog st')"
      by (auto simp: sleeps_after_failures_append) }
  { assume m: "1 \<le> mr"
    from fetch_attempts_cities [OF a] upto_1(2) [OF m] upto_1(3) [of mr]
    have "fetched_cities (xlog st0) = fetched_cities (xlog st) @ [cty]" by simp
    with st' show "fetched_cities (xlog st') = fetched_cities (xlog st) @ [cty]"
      by (auto simp: fetched_cities_append) }
qed

lemma retry_blocks_Nil:
  "retry_blocks cty mr [] answers = []"
  by (simp add: retry_blocks_def)

lemma retry_blocks_Cons:
  "retry_blocks cty mr (a # as) (x # xs) =
     [Fetching cty a mr, failure_entry cty x, Slept 1] @ retry_blocks cty mr as xs"
  by (simp add: retry_blocks_def)

lemma fetch_attempts_failed_step:
  assumes "failed_response (get (requests st) url)"
  shows "fetch_attempts get mr url cty (a # rest) st =
           fetch_attempts get mr url cty rest
             (st\<lparr>requests := Suc (requests st),
                 xlog := xlog st @ [Fetching cty a mr,
                                    failure_entry cty (get (requests st) url), Slept 1]\<rparr>)"
proof (cases "get (requests st) url")
  case RequestRaises
  then show ?thesis by (simp add: Let_def)
next
  case (Response code body)
  with assms show ?thesis
    by (cases body) (auto simp: Let_def)
qed

lemma fetch_attempts_failed_prefix:
  "\<forall>i < length as. failed_response (get (requests st + i) url) \<Longrightarrow>
     fetch_attempts get mr url cty (as @ rest) st =
       fetch_attempts get mr url cty rest
         (st\<lparr>requests := requests st + length as,
             xlog := xlog st @ retry_blocks cty mr as
                       (map (\<lambda>i. get (requests st + i) url) [0..<length as])\<rparr>)"
proof (induction as arbitrary: st)
  case Nil
  then show ?case by (simp add: retry_blocks_Nil)
next
  case (Cons a as)
  let ?st1 = "st\<lparr>requests := Suc (requests st),
                 xlog := xlog st @ [Fetching cty a mr,
                                    failure_entry cty (get (requests st) url), Slept 1]\<rparr>"
  from Cons.prems have f: "failed_response (get (requests st) url)"
    by (auto dest: spec [of _ 0])
  from Cons.prems have "\<forall>i < length as. failed_response (get (requests ?st1 + i) url)"
    by (auto dest: spec [of _ "Suc i" for i])
  from this Cons.IH [of ?st1]
  have i: "fetch_attempts get mr url cty (as @ rest) ?st1 =
       fetch_attempts get mr url cty rest
         (?st1\<lparr>requests := requests ?st1 + length as,
             xlog := xlog ?st1 @ retry_blocks cty mr as
                       (map (\<lambda>i. get (requests ?st1 + i) url) [0..<length as])\<rparr>)"
    by blast
  have "fetch_attempts get mr url cty ((a # as) @ rest) st
          = fetch_attempts get mr url cty (as @ rest) ?st1"
    using f fetch_attempts_failed_step [of get st url mr cty a "as @ rest"] by simp
  also note i
  finally show ?case
    by (simp add: retry_blocks_Cons map_upt_Suc del: upt_Suc)
qed

lemma length_upto_1:
  "length [1..int k] = k"
  by simp

lemma fetch_with_retry_exhausted:
  assumes "\<forall>i < nat mr. failed_response (get (requests st + i) url)"
  shows "fetch_with_retry get mr url cty st =
           (None, st\<lparr>requests := requests st + nat mr,
                     xlog := xlog st @ retry_blocks cty mr [1..mr]
                               (map (\<lambda>i. get (requests st + i) url) [0..<nat mr])
                             @ [FetchFailed cty mr]\<rparr>)"
proof -
  have l: "length [1..mr] = nat mr" by simp
  from assms have "\<forall>i < length [1..mr]. failed_response (get (requests st + i) url)"
    by (simp only: l)
  with fetch_attempts_failed_prefix [of "[1..mr]" get st url mr cty "[]"]
  show ?thesis
    by (simp add: fetch_with_retry_def del: length_upto)
       (simp add: l)
qed

lemma fetch_with_retry_answered:
  assumes "k < nat mr"
    and "\<forall>i < k. failed_response (get (requests st + i) url)"
    and "get (requests st + k) url = Response 200 body" and "body \<noteq> JsonRaises"
  shows "fetch_with_retry get mr url cty st =
           ((case body of Json j \<Rightarrow> Some j | _ \<Rightarrow> None),
            st\<lparr>requests := requests st + k + 1,
               xlog := xlog st @ retry_blocks cty mr [1..int k]
                         (map (\<lambda>i. get (requests st + i) url) [0..<k])
                       @ [Fetching cty (int k + 1) mr]\<rparr>)"
proof -
  from assms(1) have "1 \<le> int k + 1" "int k + 1 \<le> mr"
    by linarith+
  from upto_split3 [OF this] have s: "[1..mr] = [1..int k] @ (int k + 1) # [int k + 2..mr]"
    by (simp add: add.commute)
  have l: "length [1..int k] = k" by simp
  from assms(2) have "\<forall>i < length [1..int k]. failed_response (get (requests st + i) url)"
    by (simp only: l)
  with fetch_attempts_failed_prefix [of "[1..int k]" get st url mr cty
      "(int k + 1) # [int k + 2..mr]"]
  have "fetch_attempts get mr url cty [1..mr] st =
          fetch_attempts get mr url cty ((int k + 1) # [int k + 2..mr])
            (st\<lparr>requests := requests st + k,
                xlog := xlog st @ retry_blocks cty mr [1..int k]
                          (map (\<lambda>i. get (requests st + i) url) [0..<k])\<rparr>)"
    by (simp only: s [symmetric] l)
  with assms(3,4) show ?thesis
    by (cases body) (simp_all add: fetch_with_retry_def Let_def)
qed

lemma extract_cities_continues:
  assumes "CITY_COORDS c = Some (lat, lon)"
    and "fetch_with_retry (http_get w) (MAX_RETRIES cfg) (build_url cfg lat lon) c st = (None, st1)"
  shows "extract_cities cfg w (c # rest) saved st = extract_cities cfg w rest saved st1"
  using assms by simp

lemma extract_cities_effect:
  assumes "set cities \<subseteq> dom CITY_COORDS" "\<forall>p. can_write w p"
    "time_sleep (SLEEP_BETWEEN cfg) = Inr secs"
  shows "\<exists>files st'. extract_cities cfg w cities saved st = Inr (files, st')
           \<and> requests st' \<le> requests st + length cities * nat (MAX_RETRIES cfg)
           \<and> (sleeps_after_failures (xlog st) \<longrightarrow> sleeps_after_failures (xlog st'))
           \<and> (1 \<le> MAX_RETRIES cfg \<longrightarrow>
                 fetched_cities (xlog st') = fetched_cities (xlog st) @ cities)"
  using assms(1)
proof (induction cities arbitrary: saved st)
  case Nil
  then show ?case by simp
next
  case (Cons c cs)
  from Cons.prems obtain lat lon where ll: "CITY_COORDS c = Some (lat, lon)" by fastforce
  from Cons.prems have cs: "set cs \<subseteq> dom CITY_COORDS" by simp
  let ?mr = "MAX_RETRIES cfg"
  obtain data st1 where
    f: "fetch_with_retry (http_get w) ?mr (build_url cfg lat lon) c st = (data, st1)"
    by (cases "fetch_with_retry (http_get w) ?mr (build_url cfg lat lon) c st") auto
  note e = fetch_with_retry_effect [OF f]
  show ?case
  proof (cases data)
    case None
    from Cons.IH [OF cs, of saved st1] obtain files st' where
      i: "extract_cities cfg w cs saved st1 = Inr (files, st')"
         "requests st' \<le> requests st1 + length cs * nat ?mr"
         "sleeps_after_failures (xlog st1) \<longrightarrow> sleeps_after_failures (xlog st')"
         "1 \<le> ?mr \<longrightarrow> fetched_cities (xlog st') = fetched_cities (xlog st1) @ cs"
      by blast
    from ll f None i(1) have "extract_cities cfg w (c # cs) saved st = Inr (files, st')"
      by simp
    with i e show ?thesis by auto
  next
    case (Some j)
    let ?p = "path_join (RAW_DIR cfg) (raw_file_name c (strftime_now w (clock_reads st1)))"
    let ?st2 = "st1\<lparr>clock_reads := Suc (clock_reads st1),
                    written := written st1 @ [(?p, j)],
                    xlog := xlog st1 @ [SavedRaw ?p, Slept secs]\<rparr>"
    from Cons.IH [OF cs, of "saved @ [?p]" ?st2] obtain files st' where
      i: "extract_cities cfg w cs (saved @ [?p]) ?st2 = Inr (files, st')"
         "requests st' \<le> requests ?st2 + length cs * nat ?mr"
         "sleeps_after_failures (xlog ?st2) \<longrightarrow> sleeps_after_failures (xlog st')"
         "1 \<le> ?mr \<longrightarrow> fetched_cities (xlog st') = fetched_cities (xlog ?st2) @ cs"
      by blast
    from ll f Some i(1) assms(2,3)
    have "extract_cities cfg w (c # cs) saved st = Inr (files, st')"
      by (simp add: Let_def)
    moreover have "sleeps_after_failures (xlog st1) \<Longrightarrow> sleeps_after_failures (xlog ?st2)"
      by (simp add: sleeps_after_failures_append)
    ultimately show ?thesis using i e by (auto simp: fetched_cities_append)
  qed
qed

lemma upto_1_3: "[1..3] = [1, 2, 3]"
  by (simp add: upto_rec1)

lemma delhi_down_run:
  "extract_air_quality example_config delhi_down =
     Inr ([''data/raw/Mumbai_raw_20240101_000000.json''],
          \<lparr>requests = 4, clock_reads = 1,
           xlog = [Fetching ''Delhi'' 1 3, ApiError 503 ''Delhi'', Slept 1,
                   Fetching ''Delhi'' 2 3, ApiError 503 ''Delhi'', Slept 1,
                   Fetching ''Delhi'' 3 3, ApiError 503 ''Delhi'', Slept 1,
                   FetchFailed ''Delhi'' 3,
                   Fetching ''Mumbai'' 1 3,
                   SavedRaw ''data/raw/Mumbai_raw_20240101_000000.json'', Slept (1 / 2)],
           written = [(''data/raw/Mumbai_raw_20240101_000000.json'', 7)]\<rparr>)"
  by (simp add: extract_air_quality_def example_config_def delhi_down_def xstate0_def
      CITY_COORDS_def fetch_with_retry_def upto_1_3 path_join_def raw_file_name_def
      build_url_def time_sleep_def Let_def)

text \<open>
  C6. A call of \<open>fetch_with_retry\<close> makes at most \<open>MAX_RETRIES\<close> requests, one after
  the other, and sleeps one second directly after every attempt that failed: an answer
  whose status is not 200 (any non-2xx status is one), an exception of the request, or a
  body that cannot be decoded. Exactly: when the first \<open>k\<close> answers fail and the next
  is a response of status 200 with a decodable body, it has logged for each failed
  attempt the attempt, the failure and the sleep of one second, then the attempt
  \<open>k + 1\<close>, it has made \<open>k + 1\<close> requests, and it returns the document; when
  \<open>MAX_RETRIES\<close> answers fail it has logged the same for each of them, then that the
  fetch failed, it has made exactly \<open>MAX_RETRIES\<close> requests, and it returns the
  failure value \<open>None\<close>; it never raises. The extraction then goes on with the next
  city, with the files saved so far: whatever the server answers, for cities of the
  coordinate table, a writable raw directory and a duration that \<open>time.sleep\<close>
  accepts, \<open>extract_air_quality\<close> returns and has started a fetch for every configured
  city, in order.
\<close>

theorem fetch_bounded_and_batch_continues:
  "(fetch_with_retry get mr url cty st = (r, st') \<longrightarrow>
      requests st' \<le> requests st + nat mr
      \<and> (sleeps_after_failures (xlog st) \<longrightarrow> sleeps_after_failures (xlog st')))
   \<and> ((\<forall>i < nat mr. failed_response (get (requests st + i) url)) \<longrightarrow>
        fetch_with_retry get mr url cty st =
          (None, st\<lparr>requests := requests st + nat mr,
                    xlog := xlog st @ retry_blocks cty mr [1..mr]
                              (map (\<lambda>i. get (requests st + i) url) [0..<nat mr])
                            @ [FetchFailed cty mr]\<rparr>))
   \<and> (k < nat mr \<and> (\<forall>i < k. failed_response (get (requests st + i) url))
        \<and> get (requests st + k) url = Response 200 body \<and> body \<noteq> JsonRaises \<longrightarrow>
        fetch_with_retry get mr url cty st =
          ((case body of Json j \<Rightarrow> Some j | _ \<Rightarrow> None),
           st\<lparr>requests := requests st + k + 1,
              xlog := xlog st @ retry_blocks cty mr [1..int k]
                        (map (\<lambda>i. get (requests st + i) url) [0..<k])
                      @ [Fetching cty (int k + 1) mr]\<rparr>))
   \<and> (CITY_COORDS c = Some (lat, lon)
        \<and> fetch_with_retry (http_get w) (MAX_RETRIES cfg) (build_url cfg lat lon) c sx
            = (None, sx') \<longrightarrow>
        extract_cities cfg w (c # rest) saved sx = extract_cities cfg w rest saved sx')
   \<and> (set (CITIES cfg) \<subseteq> dom CITY_COORDS \<and> (\<forall>p. can_write w p)
        \<and> time_sleep (SLEEP_BETWEEN cfg) = Inr secs \<longrightarrow>
        (\<exists>files stx. extract_air_quality cfg w = Inr (files, stx)
            \<and> requests stx \<le> length (CITIES cfg) * nat (MAX_RETRIES cfg)
            \<and> sleeps_after_failures (xlog stx)
            \<and> (1 \<le> MAX_RETRIES cfg \<longrightarrow> fetched_cities (xlog stx) = CITIES cfg)))"
proof -
  have c1: "fetch_with_retry get mr url cty st = (r, st') \<longrightarrow>
      requests st' \<le> requests st + nat mr
      \<and> (sleeps_after_failures (xlog st) \<longrightarrow> sleeps_after_failures (xlog st'))"
    using fetch_with_retry_effect(2,5) [of get mr url cty st r st'] by blast
  have c2: "(\<forall>i < nat mr. failed_response (get (requests st + i) url)) \<longrightarrow>
        fetch_with_retry get mr url cty st =
          (None, st\<lparr>requests := requests st + nat mr,
                    xlog := xlog st @ retry_blocks cty mr [1..mr]
                              (map (\<lambda>i. get (requests st + i) url) [0..<nat mr])
                            @ [FetchFailed cty mr]\<rparr>)"
    using fetch_with_retry_exhausted [of mr get st url cty] by (intro impI)
  have c3: "k < nat mr \<and> (\<forall>i < k. failed_response (get (requests st + i) url))
        \<and> get (requests st + k) url = Response 200 body \<and> body \<noteq> JsonRaises \<longrightarrow>
        fetch_with_retry get mr url cty st =
          ((case body of Json j \<Rightarrow> Some j | _ \<Rightarrow> None),
           st\<lparr>requests := requests st + k + 1,
              xlog := xlog st @ retry_blocks cty mr [1..int k]
                        (map (\<lambda>i. get (requests st + i) url) [0..<k])
                      @ [Fetching cty (int k + 1) mr]\<rparr>)"
    using fetch_with_retry_answered [of k mr get st url body cty] by (intro impI) (elim conjE)
  have c4: "CITY_COORDS c = Some (lat, lon)
        \<and> fetch_with_retry (http_get w) (MAX_RETRIES cfg) (build_url cfg lat lon) c sx
            = (None, sx') \<longrightarrow>
        extract_cities cfg w (c # rest) saved sx = extract_cities cfg w rest saved sx'"
    using extract_cities_continues [of c lat lon w cfg sx sx' rest saved]
    by (intro impI) (elim conjE)
  have c5: "set (CITIES cfg) \<subseteq> dom CITY_COORDS \<and> (\<forall>p. can_write w p)
        \<and> time_sleep (SLEEP_BETWEEN cfg) = Inr secs \<longrightarrow>
        (\<exists>files stx. extract_air_quality cfg w = Inr (files, stx)
            \<and> requests stx \<le> length (CITIES cfg) * nat (MAX_RETRIES cfg)
            \<and> sleeps_after_failures (xlog stx)
            \<and> (1 \<le> MAX_RETRIES cfg \<longrightarrow> fetched_cities (xlog stx) = CITIES cfg))"
  proof (intro impI, elim conjE)
    assume c: "set (CITIES cfg) \<subseteq> dom CITY_COORDS" and p: "\<forall>p. can_write w p"
      and t: "time_sleep (SLEEP_BETWEEN cfg) = Inr secs"
    from extract_cities_effect [OF c p t, of "[]" xstate0]
    show "\<exists>files stx. extract_air_quality cfg w = Inr (files, stx)
            \<and> requests stx \<le> length (CITIES cfg) * nat (MAX_RETRIES cfg)
            \<and> sleeps_after_failures (xlog stx)
            \<and> (1 \<le> MAX_RETRIES cfg \<longrightarrow> fetched_cities (xlog stx) = CITIES cfg)"
      by (simp add: extract_air_quality_def xstate0_def)
  qed
  show ?thesis
    by (intro conjI) (fact c1, fact c2, fact c3, fact c4, fact c5)
qed

theorem fetch_bounded_and_batch_continues_witness:
  "fetch_with_retry (http_get delhi_down) 3 ''u'' ''Delhi'' xstate0 =
     (None, \<lparr>requests = 3, clock_reads = 0,
             xlog = [Fetching ''Delhi'' 1 3, ApiError 503 ''Delhi'', Slept 1,
                     Fetching ''Delhi'' 2 3, ApiError 503 ''Delhi'', Slept 1,
                     Fetching ''Delhi'' 3 3, ApiError 503 ''Delhi'', Slept 1,
                     FetchFailed ''Delhi'' 3],
             written = []\<rparr>)
   \<and> fetch_with_retry flaky_get 3 ''u'' ''Delhi'' xstate0 =
     (Some 7, \<lparr>requests = 3, clock_reads = 0,
               xlog = [Fetching ''Delhi'' 1 3, RequestFailed ''Delhi'', Slept 1,
                       Fetching ''Delhi'' 2 3, RequestFailed ''Delhi'', Slept 1,
                       Fetching ''Delhi'' 3 3],
               written = []\<rparr>)
   \<and> (\<exists>files stx. extract_air_quality example_config delhi_down = Inr (files, stx)
       \<and> files = [''data/raw/Mumbai_raw_20240101_000000.json'']
       \<and> FetchFailed ''Delhi'' 3 \<in> set (xlog stx)
       \<and> fetched_cities (xlog stx) = [''Delhi'', ''Mumbai'']
       \<and> sleeps_after_failures (xlog stx)
       \<and> requests stx \<le> 6)"
proof -
  note t = fetch_bounded_and_batch_continues [where get = "http_get delhi_down" and mr = 3
      and url = "''u''" and cty = "''Delhi''" and st = "xstate0 :: nat xstate" and r = None
      and st' = "xstate0 :: nat xstate" and k = 0 and body = "Json 7" and c = "''Delhi''"
      and lat = "''28.7041''" and lon = "''77.1025''" and w = delhi_down
      and cfg = example_config and sx = "xstate0 :: nat xstate" and sx' = "xstate0 :: nat xstate"
      and rest = "[]" and saved = "[]" and secs = "1 / 2"]
  note u = fetch_bounded_and_batch_continues [where get = flaky_get and mr = 3
      and url = "''u''" and cty = "''Delhi''" and st = "xstate0 :: nat xstate" and r = None
      and st' = "xstate0 :: nat xstate" and k = 2 and body = "Json 7" and c = "''Delhi''"
      and lat = "''28.7041''" and lon = "''77.1025''" and w = delhi_down
      and cfg = example_config and sx = "xstate0 :: nat xstate" and sx' = "xstate0 :: nat xstate"
      and rest = "[]" and saved = "[]" and secs = "1 / 2"]
  have h1: "\<forall>i < nat 3. failed_response (http_get delhi_down (requests (xstate0 :: nat xstate) + i) ''u'')"
    by (simp add: delhi_down_def xstate0_def)
  from t have "(\<forall>i < nat 3. failed_response (http_get delhi_down (requests (xstate0 :: nat xstate) + i) ''u''))
      \<longrightarrow> fetch_with_retry (http_get delhi_down) 3 ''u'' ''Delhi'' (xstate0 :: nat xstate) = (None, ((xstate0 :: nat xstate)\<lparr>requests := requests (xstate0 :: nat xstate) + nat 3,
                 xlog := xlog (xstate0 :: nat xstate) @ retry_blocks ''Delhi'' 3 [1..3]
                           (map (\<lambda>i. http_get delhi_down (requests (xstate0 :: nat xstate) + i) ''u'') [0..<nat 3])
                         @ [FetchFailed ''Delhi'' 3]\<rparr>))"
    by (elim conjE)
  from this h1 have "fetch_with_retry (http_get delhi_down) 3 ''u'' ''Delhi'' (xstate0 :: nat xstate) = (None, ((xstate0 :: nat xstate)\<lparr>requests := requests (xstate0 :: nat xstate) + nat 3,
                 xlog := xlog (xstate0 :: nat xstate) @ retry_blocks ''Delhi'' 3 [1..3]
                           (map (\<lambda>i. http_get delhi_down (requests (xstate0 :: nat xstate) + i) ''u'') [0..<nat 3])
                         @ [FetchFailed ''Delhi'' 3]\<rparr>))"
    by (rule mp)
  also have "((xstate0 :: nat xstate)\<lparr>requests := requests (xstate0 :: nat xstate) + nat 3,
                 xlog := xlog (xstate0 :: nat xstate) @ retry_blocks ''Delhi'' 3 [1..3]
                           (map (\<lambda>i. http_get delhi_down (requests (xstate0 :: nat xstate) + i) ''u'') [0..<nat 3])
                         @ [FetchFailed ''Delhi'' 3]\<rparr>) = \<lparr>requests = 3, clock_reads = 0,
             xlog = [Fetching ''Delhi'' 1 3, ApiError 503 ''Delhi'', Slept 1,
                     Fetching ''Delhi'' 2 3, ApiError 503 ''Delhi'', Slept 1,
                     Fetching ''Delhi'' 3 3, ApiError 503 ''Delhi'', Slept 1,
                     FetchFailed ''Delhi'' 3],
             written = []\<rparr>"
    by (simp add: xstate0_def delhi_down_def retry_blocks_def upto_1_3 eval_nat_numeral)
  finally have a: "fetch_with_retry (http_get delhi_down) 3 ''u'' ''Delhi'' (xstate0 :: nat xstate) =
     (None, \<lparr>requests = 3, clock_reads = 0,
             xlog = [Fetching ''Delhi'' 1 3, ApiError 503 ''Delhi'', Slept 1,
                     Fetching ''Delhi'' 2 3, ApiError 503 ''Delhi'', Slept 1,
                     Fetching ''Delhi'' 3 3, ApiError 503 ''Delhi'', Slept 1,
                     FetchFailed ''Delhi'' 3],
             written = []\<rparr>)" .
  have h2: "2 < nat 3
      \<and> (\<forall>i < 2. failed_response (flaky_get (requests (xstate0 :: nat xstate) + i) ''u''))
      \<and> flaky_get (requests (xstate0 :: nat xstate) + 2) ''u'' = Response 200 (Json 7)
      \<and> Json (7 :: nat) \<noteq> JsonRaises"
    by (simp add: flaky_get_def xstate0_def)
  from u have "2 < nat 3
      \<and> (\<forall>i < 2. failed_response (flaky_get (requests (xstate0 :: nat xstate) + i) ''u''))
      \<and> flaky_get (requests (xstate0 :: nat xstate) + 2) ''u'' = Response 200 (Json 7)
      \<and> Json (7 :: nat) \<noteq> JsonRaises
      \<longrightarrow> fetch_with_retry flaky_get 3 ''u'' ''Delhi'' (xstate0 :: nat xstate)
            = ((case Json 7 of Json j \<Rightarrow> Some j | _ \<Rightarrow> None), ((xstate0 :: nat xstate)\<lparr>requests := requests (xstate0 :: nat xstate) + 2 + 1,
              xlog := xlog (xstate0 :: nat xstate) @ retry_blocks ''Delhi'' 3 [1..int 2]
                        (map (\<lambda>i. flaky_get (requests (xstate0 :: nat xstate) + i) ''u'') [0..<2])
                      @ [Fetching ''Delhi'' (int 2 + 1) 3]\<rparr>))"
    by (elim conjE)
  from this h2 have "fetch_with_retry flaky_get 3 ''u'' ''Delhi'' (xstate0 :: nat xstate)
            = ((case Json 7 of Json j \<Rightarrow> Some j | _ \<Rightarrow> None), ((xstate0 :: nat xstate)\<lparr>requests := requests (xstate0 :: nat xstate) + 2 + 1,
              xlog := xlog (xstate0 :: nat xstate) @ retry_blocks ''Delhi'' 3 [1..int 2]
                        (map (\<lambda>i. flaky_get (requests (xstate0 :: nat xstate) + i) ''u'') [0..<2])
                      @ [Fetching ''Delhi'' (int 2 + 1) 3]\<rparr>))"
    by (rule mp)
  also have "((case Json 7 of Json j \<Rightarrow> Some j | _ \<Rightarrow> None), ((xstate0 :: nat xstate)\<lparr>requests := requests (xstate0 :: nat xstate) + 2 + 1,
              xlog := xlog (xstate0 :: nat xstate) @ retry_blocks ''Delhi'' 3 [1..int 2]
                        (map (\<lambda>i. flaky_get (requests (xstate0 :: nat xstate) + i) ''u'') [0..<2])
                      @ [Fetching ''Delhi'' (int 2 + 1) 3]\<rparr>)) =
     (Some 7, \<lparr>requests = 3, clock_reads = 0,
               xlog = [Fetching ''Delhi'' 1 3, RequestFailed ''Delhi'', Slept 1,
                       Fetching ''Delhi'' 2 3, RequestFailed ''Delhi'', Slept 1,
                       Fetching ''Delhi'' 3 3],
               written = []\<rparr>)"
    by (simp add: xstate0_def flaky_get_def retry_blocks_def upto_rec1 eval_nat_numeral)
  finally have b: "fetch_with_retry flaky_get 3 ''u'' ''Delhi'' (xstate0 :: nat xstate) =
     (Some 7, \<lparr>requests = 3, clock_reads = 0,
               xlog = [Fetching ''Delhi'' 1 3, RequestFailed ''Delhi'', Slept 1,
                       Fetching ''Delhi'' 2 3, RequestFailed ''Delhi'', Slept 1,
                       Fetching ''Delhi'' 3 3],
               written = []\<rparr>)" .
  have h3: "set (CITIES example_config) \<subseteq> dom CITY_COORDS \<and> (\<forall>p. can_write delhi_down p)
        \<and> time_sleep (SLEEP_BETWEEN example_config) = Inr (1 / 2)"
    by (simp add: example_config_def CITY_COORDS_def delhi_down_def time_sleep_def)
  have m: "1 \<le> MAX_RETRIES example_config" by (simp add: example_config_def)
  from t have "set (CITIES example_config) \<subseteq> dom CITY_COORDS \<and> (\<forall>p. can_write delhi_down p)
        \<and> time_sleep (SLEEP_BETWEEN example_config) = Inr (1 / 2) \<longrightarrow>
        (\<exists>files stx. extract_air_quality example_config delhi_down = Inr (files, stx)
            \<and> requests stx \<le> length (CITIES example_config) * nat (MAX_RETRIES example_config)
            \<and> sleeps_after_failures (xlog stx)
            \<and> (1 \<le> MAX_RETRIES example_config \<longrightarrow>
                  fetched_cities (xlog stx) = CITIES example_config))"
    by (elim conjE)
  from this h3 have "\<exists>files stx. extract_air_quality example_config delhi_down = Inr (files, stx)
            \<and> requests stx \<le> length (CITIES example_config) * nat (MAX_RETRIES example_config)
            \<and> sleeps_after_failures (xlog stx)
            \<and> (1 \<le> MAX_RETRIES example_config \<longrightarrow>
                  fetched_cities (xlog stx) = CITIES example_config)"
    by (rule mp)
  with m obtain files stx where
    x: "extract_air_quality example_config delhi_down = Inr (files, stx)"
       "requests stx \<le> length (CITIES example_config) * nat (MAX_RETRIES example_config)"
       "sleeps_after_failures (xlog stx)"
       "fetched_cities (xlog stx) = CITIES example_config"
    by blast
  from x(1) have f: "files = [''data/raw/Mumbai_raw_20240101_000000.json'']"
      "FetchFailed ''Delhi'' 3 \<in> set (xlog stx)"
    by (auto simp: delhi_down_run)
  from x f have c: "\<exists>files stx. extract_air_quality example_config delhi_down = Inr (files, stx)
       \<and> files = [''data/raw/Mumbai_raw_20240101_000000.json'']
       \<and> FetchFailed ''Delhi'' 3 \<in> set (xlog stx)
       \<and> fetched_cities (xlog stx) = [''Delhi'', ''Mumbai'']
       \<and> sleeps_after_failures (xlog stx)
       \<and> requests stx \<le> 6"
    by (intro exI [of _ files] exI [of _ stx]) (simp add: example_config_def)
  from a b c show ?thesis
    by (intro conjI)
qed


end
